theory Spec2Isabelle
  imports Main
begin

unbundle bit_operations_syntax

section \<open>The environment of the two scripts\<close>

text \<open>
  Both scripts (\<^verbatim>\<open>scripts/common/format.py\<close> and \<^verbatim>\<open>scripts/common/analyze.py\<close>) are
  glue around three interfaces of the operating system: the file system
  (\<^verbatim>\<open>os.walk\<close>, \<^verbatim>\<open>os.path.exists\<close>, \<^verbatim>\<open>os.path.abspath\<close>), child processes
  (\<^verbatim>\<open>subprocess.run\<close>) and the console (\<^verbatim>\<open>print\<close>). The model makes each of them
  explicit.

  A directory tree consists of regular files, with their contents, and directories, whose
  entries are listed in directory-iteration order. Symbolic links are not modelled.
\<close>

datatype node = File string | Dir "(string \<times> node) list"

fun is_dir :: "node \<Rightarrow> bool" where
  "is_dir (Dir es) = True"
| "is_dir (File c) = False"

text \<open>
  What the operating system answers about paths is left to the file system itself:
  \<open>os_path_exists\<close> is \<^verbatim>\<open>os.path.exists\<close>, \<open>walk_tree p\<close> is the tree that
  \<^verbatim>\<open>os.walk(p)\<close> scans (a \<open>File\<close> node when \<open>p\<close> is not a directory that can be
  scanned), and \<open>os_path_abspath\<close> is \<^verbatim>\<open>os.path.abspath\<close>.
\<close>

record filesystem =
  os_path_exists :: "string \<Rightarrow> bool"
  walk_tree :: "string \<Rightarrow> node"
  os_path_abspath :: "string \<Rightarrow> string"

text \<open>
  \<^verbatim>\<open>subprocess.run(cmd, capture_output=True, text=True)\<close> either raises or completes
  with a return code, the captured standard output and the captured standard error.
  \<^verbatim>\<open>FileNotFoundError\<close> is kept apart from every other exception because the probes
  catch exactly that one. Each exception carries the text of \<^verbatim>\<open>str(e)\<close>.
\<close>

datatype exn = FileNotFoundError string | OtherException string

fun exn_msg :: "exn \<Rightarrow> string" where
  "exn_msg (FileNotFoundError m) = m"
| "exn_msg (OtherException m) = m"

datatype outcome = Raises exn | Completed int string string

text \<open>
  The external executables are a parameter of the model: given the argument vector and
  the file system, they produce an outcome and the file system they leave behind.
\<close>

type_synonym tools = "string list \<Rightarrow> filesystem \<Rightarrow> outcome \<times> filesystem"

text \<open>
  The state of a run: the file system, the argument vector of every
  \<^verbatim>\<open>subprocess.run\<close> call so far (also of those that raised), and the text of every
  \<^verbatim>\<open>print\<close> call so far (both oldest first).
\<close>

record world =
  fs :: filesystem
  spawned :: "string list list"
  console :: "string list"

definition print :: "string \<Rightarrow> world \<Rightarrow> world" where
  "print s w = w\<lparr>console := console w @ [s]\<rparr>"

definition subprocess_run :: "tools \<Rightarrow> string list \<Rightarrow> world \<Rightarrow> outcome \<times> world" where
  "subprocess_run T cmd w =
     (case T cmd (fs w) of (r, f) \<Rightarrow> (r, w\<lparr>fs := f, spawned := spawned w @ [cmd]\<rparr>))"

text \<open>
  A function that may raise returns \<open>Inl\<close> of the exception or \<open>Inr\<close> of its value,
  together with the world it leaves.
\<close>

definition bind_io ::
  "(world \<Rightarrow> (exn + 'a) \<times> world) \<Rightarrow> ('a \<Rightarrow> world \<Rightarrow> (exn + 'b) \<times> world) \<Rightarrow>
   world \<Rightarrow> (exn + 'b) \<times> world" where
  "bind_io m k w = (case m w of (Inl e, w1) \<Rightarrow> (Inl e, w1) | (Inr x, w1) \<Rightarrow> k x w1)"

subsection \<open>Strings and paths\<close>

definition endswith :: "string \<Rightarrow> string \<Rightarrow> bool" where
  "endswith s ext = (length ext \<le> length s \<and> drop (length s - length ext) s = ext)"

definition contains :: "string \<Rightarrow> string \<Rightarrow> bool" where
  "contains sub s = list_ex (\<lambda>i. take (length sub) (drop i s) = sub) [0..<Suc (length s)]"

text \<open>\<^verbatim>\<open>posixpath.join\<close> for two components.\<close>

definition os_path_join :: "string \<Rightarrow> string \<Rightarrow> string" where
  "os_path_join a b =
     (if b \<noteq> [] \<and> hd b = CHR ''/'' then b
      else if a = [] \<or> last a = CHR ''/'' then a @ b
      else a @ ''/'' @ b)"

text \<open>\<^verbatim>\<open>str(n)\<close> for a count, as the f-strings format it.\<close>

function str_nat :: "nat \<Rightarrow> string" where
  "str_nat n = (if n < 10 then [''0123456789'' ! n] else str_nat (n div 10) @ [''0123456789'' ! (n mod 10)])"
  by pat_completeness auto
termination
  by (relation "measure id") auto

declare str_nat.simps [simp del]

text \<open>\<^verbatim>\<open>str.strip()\<close>, with the ASCII characters that Python counts as white space.\<close>

definition py_isspace :: "char \<Rightarrow> bool" where
  "py_isspace c = (c \<in> set [CHR '' '', CHR 0x09, CHR 0x0A, CHR 0x0B, CHR 0x0C, CHR 0x0D,
                             CHR 0x1C, CHR 0x1D, CHR 0x1E, CHR 0x1F])"

definition strip :: "string \<Rightarrow> string" where
  "strip s = rev (dropWhile py_isspace (rev (dropWhile py_isspace s)))"

definition rule60 :: string where
  "rule60 = replicate 60 (CHR ''='')"

definition banner :: "string \<Rightarrow> world \<Rightarrow> world" where
  "banner title w = print rule60 (print title (print (CHR 0x0A # rule60) w))"

section \<open>Source file enumeration\<close>

text \<open>
  \<^verbatim>\<open>os.walk(root)\<close>, top-down, together with the caller's in-place pruning
  \<^verbatim>\<open>dirs[:] = [d for d in dirs if d not in excl]\<close>: for every directory visited it yields
  the directory's path and the names of its non-directory entries, then descends into the
  sub-directories that survived the pruning, in order. Scanning something that is not a
  directory yields nothing (\<^verbatim>\<open>os.walk\<close> ignores the error).
\<close>

fun os_walk :: "string list \<Rightarrow> string \<Rightarrow> node \<Rightarrow> (string \<times> string list) list" where
  "os_walk excl root (File c) = []"
| "os_walk excl root (Dir es) =
     (root, map fst (filter (\<lambda>e. \<not> is_dir (snd e)) es)) #
     concat (map (\<lambda>e. os_walk excl (os_path_join root (fst e)) (snd e))
               (filter (\<lambda>e. is_dir (snd e) \<and> fst e \<notin> set excl) es))"

definition exclude_dirs :: "string list" where
  "exclude_dirs = [''build'', ''external'', ''.git'']"

definition extensions :: "string list" where
  "extensions = [''.cpp'', ''.c'', ''.h'', ''.hpp'', ''.cc'', ''.cxx'']"

text \<open>\<^verbatim>\<open>find_source_files\<close> of format.py.\<close>

definition find_source_files :: "string \<Rightarrow> filesystem \<Rightarrow> string list" where
  "find_source_files directory f =
     [os_path_join root file.
        (root, files) \<leftarrow> os_walk exclude_dirs directory (walk_tree f directory),
        file \<leftarrow> files,
        list_ex (\<lambda>ext. endswith file ext) extensions]"

text \<open>The enumeration written out inside \<^verbatim>\<open>run_clang_tidy\<close> of analyze.py (lines 85 to 90).\<close>

definition clang_tidy_source_files :: "filesystem \<Rightarrow> string list" where
  "clang_tidy_source_files f =
     [os_path_join root file.
        (root, files) \<leftarrow> os_walk [''build'', ''external'', ''.git''] ''.'' (walk_tree f ''.''),
        file \<leftarrow> files,
        list_ex (\<lambda>ext. endswith file ext) [''.cpp'', ''.cc'', ''.cxx'']]"

text \<open>
  What it means for a path to exist in a tree: \<open>has_file t ds n\<close> holds when descending
  from \<open>t\<close> through the directories named \<open>ds\<close> reaches a directory with a non-directory
  entry named \<open>n\<close>. \<open>path_below root ds n\<close> is the path string of that entry.
\<close>

fun has_file :: "node \<Rightarrow> string list \<Rightarrow> string \<Rightarrow> bool" where
  "has_file (File c) ds n = False"
| "has_file (Dir es) [] n = list_ex (\<lambda>e. fst e = n \<and> \<not> is_dir (snd e)) es"
| "has_file (Dir es) (d # ds) n = list_ex (\<lambda>e. fst e = d \<and> has_file (snd e) ds n) es"

definition path_below :: "string \<Rightarrow> string list \<Rightarrow> string \<Rightarrow> string" where
  "path_below root ds n = os_path_join (foldl os_path_join root ds) n"

section \<open>The formatter script\<close>

definition clang_format_not_found :: "world \<Rightarrow> world" where
  "clang_format_not_found w =
     print ''  macOS: brew install clang-format''
       (print ''  Linux: sudo apt install clang-format (or equivalent)''
         (print ''  Windows: Install LLVM from https://llvm.org/builds/''
           (print ''Please install clang-format:''
             (print ''ERROR: clang-format not found!'' w))))"

definition check_clang_format :: "tools \<Rightarrow> world \<Rightarrow> (exn + bool) \<times> world" where
  "check_clang_format T w =
     (case subprocess_run T [''clang-format'', ''--version''] w of
        (Completed rc out err, w1) \<Rightarrow>
          if rc = 0 then (Inr True, print (''Found clang-format: '' @ strip out) w1)
          else (Inr False, clang_format_not_found w1)
      | (Raises (FileNotFoundError m), w1) \<Rightarrow> (Inr False, clang_format_not_found w1)
      | (Raises (OtherException m), w1) \<Rightarrow> (Inl (OtherException m), w1))"

definition dry_run_cmd :: "string \<Rightarrow> string list" where
  "dry_run_cmd file_path = [''clang-format'', ''--dry-run'', ''--Werror'', file_path]"

definition in_place_cmd :: "string \<Rightarrow> string list" where
  "in_place_cmd file_path = [''clang-format'', ''-i'', file_path]"

definition format_file :: "tools \<Rightarrow> string \<Rightarrow> bool \<Rightarrow> world \<Rightarrow> bool \<times> world" where
  "format_file T file_path dry_run w =
     (if dry_run then
        (case subprocess_run T (dry_run_cmd file_path) w of
           (Completed rc out err, w1) \<Rightarrow> (rc \<noteq> 0, w1)
         | (Raises e, w1) \<Rightarrow>
             (False, print (''Error formatting '' @ file_path @ '': '' @ exn_msg e) w1))
      else
        (case subprocess_run T (in_place_cmd file_path) w of
           (Completed rc out err, w1) \<Rightarrow> (rc = 0, w1)
         | (Raises e, w1) \<Rightarrow>
             (False, print (''Error formatting '' @ file_path @ '': '' @ exn_msg e) w1)))"

text \<open>The loop of check mode (lines 92 to 97), with \<open>files_needing_format\<close> as accumulator.\<close>

fun check_loop :: "tools \<Rightarrow> string list \<Rightarrow> string list \<Rightarrow> world \<Rightarrow> string list \<times> world" where
  "check_loop T [] files_needing_format w = (files_needing_format, w)"
| "check_loop T (file_path # rest) files_needing_format w =
     (case format_file T file_path True w of
        (True, w1) \<Rightarrow>
          check_loop T rest (files_needing_format @ [file_path])
            (print (''  NEEDS FORMATTING: '' @ file_path) w1)
      | (False, w1) \<Rightarrow>
          check_loop T rest files_needing_format (print (''  OK: '' @ file_path) w1))"

text \<open>The loop of apply mode (lines 110 to 115), with \<open>formatted_count\<close> as accumulator.\<close>

fun apply_loop :: "tools \<Rightarrow> string list \<Rightarrow> nat \<Rightarrow> world \<Rightarrow> nat \<times> world" where
  "apply_loop T [] formatted_count w = (formatted_count, w)"
| "apply_loop T (file_path # rest) formatted_count w =
     (case format_file T file_path False w of
        (True, w1) \<Rightarrow>
          apply_loop T rest (formatted_count + 1) (print (''  FORMATTED: '' @ file_path) w1)
      | (False, w1) \<Rightarrow>
          apply_loop T rest formatted_count (print (''  ERROR: '' @ file_path) w1))"

record format_args =
  check :: bool
  directory :: string

definition format_body :: "tools \<Rightarrow> format_args \<Rightarrow> world \<Rightarrow> int \<times> world" where
  "format_body T args w =
     (let w1 = print (''Searching for source files in: '' @ os_path_abspath (fs w) (directory args)) w;
          source_files = find_source_files (directory args) (fs w1)
      in if source_files = [] then (0, print ''No source files found.'' w1)
         else
           let w2 = print (''Found '' @ str_nat (length source_files) @ '' source files.'') w1
           in if check args then
                (case check_loop T source_files [] (print ''Checking formatting...'' w2) of
                   (files_needing_format, w3) \<Rightarrow>
                     if files_needing_format \<noteq> [] then
                       (1, print ''Run without --check to format them.''
                             (print (CHR 0x0A # str_nat (length files_needing_format) @
                                       '' files need formatting.'') w3))
                     else (0, print (CHR 0x0A # ''All files are properly formatted!'') w3))
              else
                (case apply_loop T source_files 0 (print ''Formatting files...'' w2) of
                   (formatted_count, w3) \<Rightarrow>
                     (0, print (CHR 0x0A # ''Formatted '' @ str_nat formatted_count @ ''/'' @
                                  str_nat (length source_files) @ '' files.'') w3)))"

text \<open>
  \<^verbatim>\<open>main\<close> of format.py, after argument parsing. \<open>format_body\<close> is everything below the
  probe (lines 78 to 118).
\<close>

definition format_main :: "tools \<Rightarrow> format_args \<Rightarrow> world \<Rightarrow> (exn + int) \<times> world" where
  "format_main T args w =
     bind_io (check_clang_format T)
       (\<lambda>found w1. if \<not> found then (Inr 1, w1)
                   else (case format_body T args w1 of (rc, w2) \<Rightarrow> (Inr rc, w2))) w"

section \<open>The analyzer script\<close>

text \<open>The two marks of the probe's messages, U+2713 and U+2717, as their UTF-8 bytes.\<close>

definition check_mark :: string where
  "check_mark = [CHR 0xE2, CHR 0x9C, CHR 0x93]"

definition cross_mark :: string where
  "cross_mark = [CHR 0xE2, CHR 0x9C, CHR 0x97]"

definition tool_not_found :: "string \<Rightarrow> string \<Rightarrow> world \<Rightarrow> world" where
  "tool_not_found tool_name install_instructions w =
     print (''  Install: '' @ install_instructions)
       (print (cross_mark @ '' '' @ tool_name @ '' not found'') w)"

definition check_tool :: "tools \<Rightarrow> string \<Rightarrow> string \<Rightarrow> world \<Rightarrow> (exn + bool) \<times> world" where
  "check_tool T tool_name install_instructions w =
     (case subprocess_run T [tool_name, ''--version''] w of
        (Completed rc out err, w1) \<Rightarrow>
          if rc = 0 then (Inr True, print (check_mark @ '' Found '' @ tool_name) w1)
          else (Inr False, tool_not_found tool_name install_instructions w1)
      | (Raises (FileNotFoundError m), w1) \<Rightarrow>
          (Inr False, tool_not_found tool_name install_instructions w1)
      | (Raises (OtherException m), w1) \<Rightarrow> (Inl (OtherException m), w1))"

definition cppcheck_flags :: "string list" where
  "cppcheck_flags =
     [''cppcheck'', ''--enable=all'', ''--inconclusive'', ''--std=c++17'',
      ''--suppress=missingIncludeSystem'', ''--suppress=unusedFunction'', ''--quiet'',
      ''--template={file}:{line}: {severity}: {message} [{id}]'']"

definition run_cppcheck :: "tools \<Rightarrow> string list \<Rightarrow> world \<Rightarrow> int \<times> world" where
  "run_cppcheck T source_dirs w =
     (let w1 = banner ''Running cppcheck...'' w;
          cmd = cppcheck_flags @ filter (os_path_exists (fs w1)) source_dirs
      in case subprocess_run T cmd w1 of
           (Completed rc out err, w2) \<Rightarrow>
             let w3 = (if out \<noteq> [] then print out (print ''Issues found:'' w2)
                       else print ''No issues found by cppcheck!'' w2);
                 w4 = (if err \<noteq> [] then print err (print ''Warnings/Info:'' w3) else w3)
             in (rc, w4)
         | (Raises e, w2) \<Rightarrow> (1, print (''Error running cppcheck: '' @ exn_msg e) w2))"

definition clang_tidy_cmd :: "string \<Rightarrow> string \<Rightarrow> string list" where
  "clang_tidy_cmd source_file build_dir = [''clang-tidy'', source_file, ''-p='' @ build_dir, ''--quiet'']"

text \<open>The per-file loop of \<^verbatim>\<open>run_clang_tidy\<close> (lines 99 to 116), with \<open>issues_found\<close> as accumulator.\<close>

fun clang_tidy_loop :: "tools \<Rightarrow> string \<Rightarrow> string list \<Rightarrow> nat \<Rightarrow> world \<Rightarrow> nat \<times> world" where
  "clang_tidy_loop T build_dir [] issues_found w = (issues_found, w)"
| "clang_tidy_loop T build_dir (source_file # rest) issues_found w =
     (case subprocess_run T (clang_tidy_cmd source_file build_dir) w of
        (Completed rc out err, w1) \<Rightarrow>
          if out \<noteq> [] \<and> contains ''warning:'' out then
            clang_tidy_loop T build_dir rest (issues_found + 1)
              (print out (print (CHR 0x0A # ''Issues in '' @ source_file @ '':'') w1))
          else clang_tidy_loop T build_dir rest issues_found w1
      | (Raises e, w1) \<Rightarrow>
          clang_tidy_loop T build_dir rest issues_found
            (print (''Error analyzing '' @ source_file @ '': '' @ exn_msg e) w1))"

definition compile_commands_path :: "string \<Rightarrow> string" where
  "compile_commands_path build_dir = os_path_join build_dir ''compile_commands.json''"

definition run_clang_tidy :: "tools \<Rightarrow> string \<Rightarrow> world \<Rightarrow> int \<times> world" where
  "run_clang_tidy T build_dir w =
     (let w1 = banner ''Running clang-tidy...'' w;
          compile_commands = compile_commands_path build_dir
      in if \<not> os_path_exists (fs w1) compile_commands then
           (1, print ''Please build the project with CMAKE_EXPORT_COMPILE_COMMANDS=ON''
                 (print (''ERROR: '' @ compile_commands @ '' not found!'') w1))
         else
           let source_files = clang_tidy_source_files (fs w1)
           in if source_files = [] then (0, print ''No source files found!'' w1)
              else
                (case clang_tidy_loop T build_dir source_files 0
                        (print (''Analyzing '' @ str_nat (length source_files) @ '' source files...'') w1) of
                   (issues_found, w2) \<Rightarrow>
                     (0, if issues_found = 0 then print ''No issues found by clang-tidy!'' w2
                         else print (CHR 0x0A # ''clang-tidy found issues in '' @
                                       str_nat issues_found @ '' files.'') w2)))"

definition run_include_what_you_use :: "world \<Rightarrow> int \<times> world" where
  "run_include_what_you_use w =
     (0, print ''https://include-what-you-use.org/''
           (print ''This is complex to set up automatically. Please refer to:''
             (print ''include-what-you-use requires compilation with special flags.''
               (banner ''Running include-what-you-use...'' w))))"

datatype tool_choice = Cppcheck | ClangTidy | Iwyu | AllTools

record analyze_args =
  tool :: tool_choice
  build_dir :: string

definition source_dirs :: "string list" where
  "source_dirs = [''SilicaEngine/src'', ''SilicaEngine/include'', ''Fractura/src'']"

text \<open>\<^verbatim>\<open>tools_available.get(key)\<close>, read as a condition: a missing key is falsy.\<close>

definition dict_get :: "(string \<rightharpoonup> bool) \<Rightarrow> string \<Rightarrow> bool" where
  "dict_get tools_available key = (case tools_available key of None \<Rightarrow> False | Some b \<Rightarrow> b)"

text \<open>One probing statement of \<^verbatim>\<open>main\<close>: \<^verbatim>\<open>if selected: tools_available[key] = check_tool(...)\<close>.\<close>

definition probe_if ::
  "bool \<Rightarrow> tools \<Rightarrow> string \<Rightarrow> string \<Rightarrow> string \<Rightarrow> (string \<rightharpoonup> bool) \<Rightarrow> world \<Rightarrow>
   (exn + (string \<rightharpoonup> bool)) \<times> world" where
  "probe_if selected T key tool_name install_instructions tools_available w =
     (if selected then
        bind_io (check_tool T tool_name install_instructions)
          (\<lambda>b w1. (Inr (tools_available(key \<mapsto> b)), w1)) w
      else (Inr tools_available, w))"

text \<open>Lines 153 to 165 of \<^verbatim>\<open>main\<close>.\<close>

definition probe_tools :: "tools \<Rightarrow> tool_choice \<Rightarrow> world \<Rightarrow> (exn + (string \<rightharpoonup> bool)) \<times> world" where
  "probe_tools T selection w =
     bind_io (probe_if (selection \<in> set [Cppcheck, AllTools]) T ''cppcheck'' ''cppcheck''
                ''apt install cppcheck / brew install cppcheck / choco install cppcheck'' Map.empty)
       (\<lambda>tools_available.
          bind_io (probe_if (selection \<in> set [ClangTidy, AllTools]) T ''clang-tidy'' ''clang-tidy''
                     ''apt install clang-tidy / brew install llvm / install LLVM'' tools_available)
            (\<lambda>tools_available.
               probe_if (selection \<in> set [Iwyu, AllTools]) T ''iwyu'' ''include-what-you-use''
                 ''Complex setup - see https://include-what-you-use.org/'' tools_available)) w"

text \<open>One running statement of \<^verbatim>\<open>main\<close>: \<^verbatim>\<open>if cond: exit_code |= runner()\<close>.\<close>

definition run_if :: "bool \<Rightarrow> (world \<Rightarrow> int \<times> world) \<Rightarrow> int \<times> world \<Rightarrow> int \<times> world" where
  "run_if cond runner s =
     (case s of (exit_code, w) \<Rightarrow>
        if cond then (case runner w of (rc, w1) \<Rightarrow> (exit_code OR rc, w1)) else (exit_code, w))"

text \<open>Lines 168 to 177 of \<^verbatim>\<open>main\<close>.\<close>

definition run_tools :: "tools \<Rightarrow> analyze_args \<Rightarrow> (string \<rightharpoonup> bool) \<Rightarrow> world \<Rightarrow> int \<times> world" where
  "run_tools T args tools_available w =
     run_if (tool args \<in> set [Iwyu, AllTools]) run_include_what_you_use
       (run_if (tool args \<in> set [ClangTidy, AllTools] \<and> dict_get tools_available ''clang-tidy'')
          (run_clang_tidy T (build_dir args))
          (run_if (tool args \<in> set [Cppcheck, AllTools] \<and> dict_get tools_available ''cppcheck'')
             (run_cppcheck T source_dirs) (0, w)))"

text \<open>\<^verbatim>\<open>main\<close> of analyze.py, after argument parsing.\<close>

definition analyze_main :: "tools \<Rightarrow> analyze_args \<Rightarrow> world \<Rightarrow> (exn + int) \<times> world" where
  "analyze_main T args w =
     bind_io (probe_tools T (tool args))
       (\<lambda>tools_available w1.
          case run_tools T args tools_available w1 of
            (exit_code, w2) \<Rightarrow> (Inr exit_code, banner ''Static analysis completed!'' w2))
       (print rule60 (print ''Caelis Static Analysis'' w))"

section \<open>Specification-side notions\<close>

text \<open>
  The verdict of check mode on each enumerated file, in order: a file needs formatting
  when its dry-run invocation completes with a non-zero return code. The file system is
  threaded through the invocations.
\<close>

fun needs_formatting :: "tools \<Rightarrow> string list \<Rightarrow> filesystem \<Rightarrow> bool list" where
  "needs_formatting T [] f = []"
| "needs_formatting T (p # ps) f =
     (case T (dry_run_cmd p) f of
        (Completed rc out err, f1) \<Rightarrow> (rc \<noteq> 0) # needs_formatting T ps f1
      | (Raises e, f1) \<Rightarrow> False # needs_formatting T ps f1)"

text \<open>
  The verdict of apply mode on each enumerated file, in order: a file was formatted
  without error when its in-place invocation completes with return code 0.
\<close>

fun formatted_without_error :: "tools \<Rightarrow> string list \<Rightarrow> filesystem \<Rightarrow> bool list" where
  "formatted_without_error T [] f = []"
| "formatted_without_error T (p # ps) f =
     (case T (in_place_cmd p) f of
        (Completed rc out err, f1) \<Rightarrow> (rc = 0) # formatted_without_error T ps f1
      | (Raises e, f1) \<Rightarrow> False # formatted_without_error T ps f1)"

text \<open>
  What apply mode prints for each enumerated file, in order: "FORMATTED" for a file
  formatted without error, "ERROR" for any other, after the message of the exception when
  the invocation raised.
\<close>

fun apply_lines :: "tools \<Rightarrow> string list \<Rightarrow> filesystem \<Rightarrow> string list" where
  "apply_lines T [] f = []"
| "apply_lines T (p # ps) f =
     (case T (in_place_cmd p) f of
        (Completed rc out err, f1) \<Rightarrow>
          (if rc = 0 then ''  FORMATTED: '' @ p else ''  ERROR: '' @ p) # apply_lines T ps f1
      | (Raises e, f1) \<Rightarrow>
          (''Error formatting '' @ p @ '': '' @ exn_msg e) # (''  ERROR: '' @ p) #
          apply_lines T ps f1)"

text \<open>
  The return codes of the sub-tool runners that a run executes, in order; \<open>codes_if\<close>
  records the return code where \<open>run_if\<close> folds it into the exit code.
\<close>

definition codes_if :: "bool \<Rightarrow> (world \<Rightarrow> int \<times> world) \<Rightarrow> int list \<times> world \<Rightarrow> int list \<times> world" where
  "codes_if cond runner s =
     (case s of (codes, w) \<Rightarrow>
        if cond then (case runner w of (rc, w1) \<Rightarrow> (codes @ [rc], w1)) else (codes, w))"

definition executed_runner_codes ::
  "tools \<Rightarrow> analyze_args \<Rightarrow> (string \<rightharpoonup> bool) \<Rightarrow> world \<Rightarrow> int list" where
  "executed_runner_codes T args tools_available w =
     fst (codes_if (tool args \<in> set [Iwyu, AllTools]) run_include_what_you_use
       (codes_if (tool args \<in> set [ClangTidy, AllTools] \<and> dict_get tools_available ''clang-tidy'')
          (run_clang_tidy T (build_dir args))
          (codes_if (tool args \<in> set [Cppcheck, AllTools] \<and> dict_get tools_available ''cppcheck'')
             (run_cppcheck T source_dirs) ([], w))))"

section \<open>Scenarios\<close>

text \<open>
  The tree of the specification's enumeration scenario: \<^verbatim>\<open>a.cpp\<close>, \<^verbatim>\<open>build/b.cpp\<close>,
  \<^verbatim>\<open>sub/c.hpp\<close> and \<^verbatim>\<open>sub/d.txt\<close>. It is the current directory of the scenario's
  file system, in which two of the three cppcheck source directories exist and no
  compiled-command database does.
\<close>

definition scenario_tree :: node where
  "scenario_tree =
     Dir [(''a.cpp'', File ''int  x;''),
          (''build'', Dir [(''b.cpp'', File [])]),
          (''sub'', Dir [(''c.hpp'', File []), (''d.txt'', File [])])]"

definition scenario_fs :: filesystem where
  "scenario_fs =
     \<lparr>os_path_exists = (\<lambda>p. p \<in> set [''SilicaEngine/src'', ''Fractura/src'']),
      walk_tree = (\<lambda>p. if p = ''.'' then scenario_tree else File []),
      os_path_abspath = (\<lambda>p. ''/repo/'' @ p)\<rparr>"

definition scenario_world :: world where
  "scenario_world = \<lparr>fs = scenario_fs, spawned = [], console = []\<rparr>"

text \<open>The same world with a compiled-command database in \<^verbatim>\<open>build\<close>.\<close>

definition built_world :: world where
  "built_world =
     scenario_world\<lparr>fs := scenario_fs\<lparr>os_path_exists := (\<lambda>p. p = ''build/compile_commands.json'')\<rparr>\<rparr>"

text \<open>Tools that are all installed and find nothing to report.\<close>

definition tools_clean :: tools where
  "tools_clean cmd f = (Completed 0 [] [], f)"

text \<open>No tool is installed: every spawn fails with the lookup error.\<close>

definition tools_absent :: tools where
  "tools_absent cmd f = (Raises (FileNotFoundError ''No such file or directory''), f)"

text \<open>
  A clang-format that is installed, reports every file as badly formatted in a dry run,
  and fails on every in-place run.
\<close>

definition tools_format_fails :: tools where
  "tools_format_fails cmd f =
     (if cmd = [''clang-format'', ''--version''] then (Completed 0 ''clang-format version 17'' [], f)
      else (Completed 1 [] ''error'', f))"

text \<open>
  A clang-format whose in-place run rewrites the tree and whose other runs leave the
  file system alone; every dry run asks for formatting.
\<close>

definition tools_rewriting :: tools where
  "tools_rewriting cmd f =
     (if cmd = [''clang-format'', ''--version''] then (Completed 0 ''clang-format version 17'' [], f)
      else if take 2 cmd = [''clang-format'', ''-i''] then
        (Completed 0 [] [], f\<lparr>walk_tree := (\<lambda>p. Dir [(''a.cpp'', File ''int x;'')])\<rparr>)
      else (Completed 1 [] [], f))"

text \<open>Tools that are all installed; every run prints one warning and returns 0.\<close>

definition tools_warning :: tools where
  "tools_warning cmd f = (Completed 0 ''a.cpp:1:1: warning: unused variable'' [], f)"

text \<open>A tree in which an excluded name occurs below the root, beside a longer name.\<close>

definition nested_fs :: filesystem where
  "nested_fs =
     \<lparr>os_path_exists = (\<lambda>p. False),
      walk_tree = (\<lambda>p. if p = ''.'' then
         Dir [(''src'', Dir [(''build'', Dir [(''x.cpp'', File [])]),
                             (''builds'', Dir [(''y.cpp'', File [])])])]
         else File []),
      os_path_abspath = (\<lambda>p. ''/repo/'' @ p)\<rparr>"

section \<open>Properties of the environment\<close>

lemma print_fields [simp]:
  "fs (print s w) = fs w"
  "spawned (print s w) = spawned w"
  "console (print s w) = console w @ [s]"
  by (simp_all add: print_def)

lemma banner_fields [simp]:
  "fs (banner t w) = fs w"
  "spawned (banner t w) = spawned w"
  "console (banner t w) = console w @ [CHR 0x0A # rule60, t, rule60]"
  by (simp_all add: banner_def)

lemma subprocess_run_fields:
  assumes "subprocess_run T cmd w = (r, w1)"
  shows "r = fst (T cmd (fs w))" "fs w1 = snd (T cmd (fs w))"
    "spawned w1 = spawned w @ [cmd]" "console w1 = console w"
  using assms by (auto simp: subprocess_run_def split: prod.splits)

section \<open>Source file enumeration\<close>

lemma has_file_is_dir: "has_file t ds n \<Longrightarrow> is_dir t"
  by (cases t) auto

lemma os_walk_sound:
  "(r, files) \<in> set (os_walk excl root t) \<Longrightarrow> n \<in> set files \<Longrightarrow>
   \<exists>ds. r = foldl os_path_join root ds \<and> has_file t ds n \<and> (\<forall>d\<in>set ds. d \<notin> set excl)"
proof (induction excl root t arbitrary: r files rule: os_walk.induct)
  case (1 excl root c)
  then show ?case by simp
next
  case (2 excl root es)
  from "2.prems"(1) consider
    (here) "r = root" "files = map fst (filter (\<lambda>e. \<not> is_dir (snd e)) es)"
  | (below) e where "e \<in> set es" "is_dir (snd e)" "fst e \<notin> set excl"
      "(r, files) \<in> set (os_walk excl (os_path_join root (fst e)) (snd e))"
    by auto
  then show ?case
  proof cases
    case here
    with "2.prems"(2) have "has_file (Dir es) [] n"
      by (auto simp: list_ex_iff)
    with here show ?thesis
      by (intro exI[of _ "[]"]) simp
  next
    case below
    with "2.IH"[of e r files] "2.prems"(2) obtain ds where
      ds: "r = foldl os_path_join (os_path_join root (fst e)) ds" "has_file (snd e) ds n"
          "\<forall>d\<in>set ds. d \<notin> set excl"
      by auto
    with below show ?thesis
      by (intro exI[of _ "fst e # ds"]) (auto simp: list_ex_iff)
  qed
qed

lemma os_walk_complete:
  "has_file t ds n \<Longrightarrow> \<forall>d\<in>set ds. d \<notin> set excl \<Longrightarrow>
   \<exists>files. (foldl os_path_join root ds, files) \<in> set (os_walk excl root t) \<and> n \<in> set files"
proof (induction t ds n arbitrary: root rule: has_file.induct)
  case (1 c ds n)
  then show ?case by simp
next
  case (2 es n)
  then show ?case by (force simp: list_ex_iff)
next
  case (3 es d ds n)
  from "3.prems"(1) obtain e where e: "e \<in> set es" "fst e = d" "has_file (snd e) ds n"
    by (auto simp: list_ex_iff)
  from "3.IH"[OF e(1) e(3), of "os_path_join root d"] "3.prems"(2)
  obtain files where f: "(foldl os_path_join (os_path_join root d) ds, files)
       \<in> set (os_walk excl (os_path_join root d) (snd e))" "n \<in> set files"
    by auto
  from e "3.prems"(2) have "e \<in> set (filter (\<lambda>e. is_dir (snd e) \<and> fst e \<notin> set excl) es)"
    by (auto dest: has_file_is_dir)
  then have "(foldl os_path_join (os_path_join root d) ds, files) \<in> set (os_walk excl root (Dir es))"
    using f(1) e(2) by (simp del: set_filter) blast
  with f(2) show ?case
    by (intro exI[of _ files]) simp
qed

text \<open>The paths an enumeration returns are the files below non-excluded directories whose
  names end with one of the extensions.\<close>

lemma enumeration_set:
  "set [os_path_join root file. (root, files) \<leftarrow> os_walk excl top_dir t, file \<leftarrow> files,
         list_ex (\<lambda>ext. endswith file ext) exts] =
   {path_below top_dir ds n | ds n.
      has_file t ds n \<and> (\<forall>d\<in>set ds. d \<notin> set excl) \<and> (\<exists>ext\<in>set exts. endswith n ext)}"
  (is "?L = ?R")
proof (intro set_eqI iffI)
  fix p assume "p \<in> ?L"
  then obtain r files n where "(r, files) \<in> set (os_walk excl top_dir t)" "n \<in> set files"
    "\<exists>ext\<in>set exts. endswith n ext" "p = os_path_join r n"
    by (auto simp: list_ex_iff)
  with os_walk_sound[of r files excl top_dir t n] show "p \<in> ?R"
    unfolding path_below_def by blast
next
  fix p assume "p \<in> ?R"
  then obtain ds n where *: "p = path_below top_dir ds n" "has_file t ds n"
    "\<forall>d\<in>set ds. d \<notin> set excl" "\<exists>ext\<in>set exts. endswith n ext"
    by blast
  from os_walk_complete[OF *(2,3), of top_dir] obtain files where
    "(foldl os_path_join top_dir ds, files) \<in> set (os_walk excl top_dir t)" "n \<in> set files"
    by blast
  with * show "p \<in> ?L"
    unfolding path_below_def by (force simp: list_ex_iff)
qed

lemma scenario_enumeration:
  "find_source_files ''.'' scenario_fs = [''./a.cpp'', ''./sub/c.hpp'']"
  by (simp add: find_source_files_def scenario_fs_def scenario_tree_def exclude_dirs_def
      extensions_def os_path_join_def endswith_def)

lemma scenario_clang_tidy_enumeration:
  "clang_tidy_source_files scenario_fs = [''./a.cpp'']"
  by (simp add: clang_tidy_source_files_def scenario_fs_def scenario_tree_def
      os_path_join_def endswith_def)

text \<open>
  C6. For every top_dir tree given to the enumerator (the one of format.py and the
  one written out in \<^verbatim>\<open>run_clang_tidy\<close>), every returned path is reached from the root
  through directories none of whose names is \<^verbatim>\<open>build\<close>, \<^verbatim>\<open>external\<close> or \<^verbatim>\<open>.git\<close>, at
  any depth. The exclusion is by exact name: a file with a listed extension that is
  reached through directories with other names is returned, whatever those names are.
\<close>

theorem enumerator_skips_excluded_directories:
  "(\<forall>p\<in>set (find_source_files top_dir f).
      \<exists>ds n. p = path_below top_dir ds n \<and> has_file (walk_tree f top_dir) ds n \<and>
             (\<forall>d\<in>set ds. d \<notin> {''build'', ''external'', ''.git''})) \<and>
   (\<forall>p\<in>set (clang_tidy_source_files f).
      \<exists>ds n. p = path_below ''.'' ds n \<and> has_file (walk_tree f ''.'') ds n \<and>
             (\<forall>d\<in>set ds. d \<notin> {''build'', ''external'', ''.git''})) \<and>
   (\<forall>ds n. has_file (walk_tree f top_dir) ds n \<and>
           (\<forall>d\<in>set ds. d \<notin> {''build'', ''external'', ''.git''}) \<and>
           (\<exists>ext\<in>set extensions. endswith n ext) \<longrightarrow>
           path_below top_dir ds n \<in> set (find_source_files top_dir f)) \<and>
   (\<forall>ds n. has_file (walk_tree f ''.'') ds n \<and>
           (\<forall>d\<in>set ds. d \<notin> {''build'', ''external'', ''.git''}) \<and>
           (\<exists>ext\<in>set [''.cpp'', ''.cc'', ''.cxx'']. endswith n ext) \<longrightarrow>
           path_below ''.'' ds n \<in> set (clang_tidy_source_files f))"
proof -
  have a: "set (find_source_files top_dir f) =
      {path_below top_dir ds n | ds n. has_file (walk_tree f top_dir) ds n \<and>
         (\<forall>d\<in>set ds. d \<notin> set exclude_dirs) \<and> (\<exists>ext\<in>set extensions. endswith n ext)}"
    unfolding find_source_files_def by (rule enumeration_set)
  have b: "set (clang_tidy_source_files f) =
      {path_below ''.'' ds n | ds n. has_file (walk_tree f ''.'') ds n \<and>
         (\<forall>d\<in>set ds. d \<notin> set [''build'', ''external'', ''.git'']) \<and>
         (\<exists>ext\<in>set [''.cpp'', ''.cc'', ''.cxx'']. endswith n ext)}"
    unfolding clang_tidy_source_files_def by (rule enumeration_set)
  have e: "set exclude_dirs = {''build'', ''external'', ''.git''}"
    by (simp add: exclude_dirs_def)
  have e': "set [''build'', ''external'', ''.git''] = {''build'', ''external'', ''.git''}"
    by simp
  show ?thesis
    unfolding a b e e' by blast
qed

lemma nested_enumeration:
  "find_source_files ''.'' nested_fs = [''./src/builds/y.cpp'']"
  "clang_tidy_source_files nested_fs = [''./src/builds/y.cpp'']"
  by (simp_all add: find_source_files_def clang_tidy_source_files_def nested_fs_def exclude_dirs_def
      extensions_def os_path_join_def endswith_def)

lemma nested_has_file:
  "has_file (walk_tree nested_fs ''.'') [''src'', ''builds''] ''y.cpp''"
  "path_below ''.'' [''src'', ''builds''] ''y.cpp'' = ''./src/builds/y.cpp''"
  "list_ex (endswith ''y.cpp'') extensions"
  by (simp_all add: nested_fs_def path_below_def os_path_join_def endswith_def extensions_def)

theorem enumerator_skips_excluded_directories_witness:
  "''./src/builds/y.cpp'' \<in> set (find_source_files ''.'' nested_fs) \<and>
   (\<exists>ds n. ''./src/builds/y.cpp'' = path_below ''.'' ds n \<and>
      has_file (walk_tree nested_fs ''.'') ds n \<and>
      (\<forall>d\<in>set ds. d \<notin> {''build'', ''external'', ''.git''})) \<and>
   ''./src/builds/y.cpp'' \<in> set (clang_tidy_source_files nested_fs) \<and>
   has_file (walk_tree nested_fs ''.'') [''src'', ''builds''] ''y.cpp'' \<and>
   set [''src'', ''builds''] \<inter> {''build'', ''external'', ''.git''} = {} \<and>
   (\<exists>ext\<in>set extensions. endswith ''y.cpp'' ext) \<and>
   (\<exists>ext\<in>set [''.cpp'', ''.cc'', ''.cxx'']. endswith ''y.cpp'' ext) \<and>
   path_below ''.'' [''src'', ''builds''] ''y.cpp'' \<in> set (find_source_files ''.'' nested_fs) \<and>
   path_below ''.'' [''src'', ''builds''] ''y.cpp'' \<in> set (clang_tidy_source_files nested_fs)"
proof -
  note t = enumerator_skips_excluded_directories[of "''.''" nested_fs]
  have m: "''./src/builds/y.cpp'' \<in> set (find_source_files ''.'' nested_fs)"
    "''./src/builds/y.cpp'' \<in> set (clang_tidy_source_files nested_fs)"
    by (simp_all add: nested_enumeration)
  have h: "has_file (walk_tree nested_fs ''.'') [''src'', ''builds''] ''y.cpp''"
    "\<forall>d\<in>set [''src'', ''builds'']. d \<notin> {''build'', ''external'', ''.git''}"
    "\<exists>ext\<in>set extensions. endswith ''y.cpp'' ext"
    "\<exists>ext\<in>set [''.cpp'', ''.cc'', ''.cxx'']. endswith ''y.cpp'' ext"
    by (simp_all add: nested_fs_def extensions_def endswith_def)
  from t m(1) have 1: "\<exists>ds n. ''./src/builds/y.cpp'' = path_below ''.'' ds n \<and>
      has_file (walk_tree nested_fs ''.'') ds n \<and>
      (\<forall>d\<in>set ds. d \<notin> {''build'', ''external'', ''.git''})"
    by blast
  from t h have 2: "path_below ''.'' [''src'', ''builds''] ''y.cpp'' \<in> set (find_source_files ''.'' nested_fs)"
    by blast
  from t h have 3: "path_below ''.'' [''src'', ''builds''] ''y.cpp'' \<in> set (clang_tidy_source_files nested_fs)"
    by blast
  have 4: "set [''src'', ''builds''] \<inter> {''build'', ''external'', ''.git''} = {}"
    by simp
  from m h 1 2 3 4 show ?thesis by blast
qed

text \<open>
  C7. For every directory tree given to the enumerator, every returned path is the path
  of a file that exists in the tree and whose name ends with one of the extensions of the
  include list. For the tree with \<^verbatim>\<open>a.cpp\<close>, \<^verbatim>\<open>build/b.cpp\<close>, \<^verbatim>\<open>sub/c.hpp\<close> and
  \<^verbatim>\<open>sub/d.txt\<close> the enumerator returns exactly \<^verbatim>\<open>a.cpp\<close> and \<^verbatim>\<open>sub/c.hpp\<close> (below
  the root it was given), each once.
\<close>

theorem enumerator_returns_existing_source_files:
  "(\<forall>p\<in>set (find_source_files top_dir f).
      \<exists>ds n. p = path_below top_dir ds n \<and> has_file (walk_tree f top_dir) ds n \<and>
             (\<exists>ext\<in>set extensions. endswith n ext)) \<and>
   set (find_source_files ''.'' scenario_fs) =
     {path_below ''.'' [] ''a.cpp'', path_below ''.'' [''sub''] ''c.hpp''} \<and>
   distinct (find_source_files ''.'' scenario_fs)"
proof -
  have "set (find_source_files top_dir f) =
      {path_below top_dir ds n | ds n. has_file (walk_tree f top_dir) ds n \<and>
         (\<forall>d\<in>set ds. d \<notin> set exclude_dirs) \<and> (\<exists>ext\<in>set extensions. endswith n ext)}"
    unfolding find_source_files_def by (rule enumeration_set)
  then have "\<forall>p\<in>set (find_source_files top_dir f).
      \<exists>ds n. p = path_below top_dir ds n \<and> has_file (walk_tree f top_dir) ds n \<and>
             (\<exists>ext\<in>set extensions. endswith n ext)"
    by blast
  moreover have "set (find_source_files ''.'' scenario_fs) =
     {path_below ''.'' [] ''a.cpp'', path_below ''.'' [''sub''] ''c.hpp''}"
    by (simp add: scenario_enumeration path_below_def os_path_join_def)
  moreover have "distinct (find_source_files ''.'' scenario_fs)"
    by (simp add: scenario_enumeration)
  ultimately show ?thesis by blast
qed

theorem enumerator_returns_existing_source_files_witness:
  "''./sub/c.hpp'' \<in> set (find_source_files ''.'' scenario_fs) \<and>
   (\<exists>ds n. ''./sub/c.hpp'' = path_below ''.'' ds n \<and> has_file (walk_tree scenario_fs ''.'') ds n \<and>
           (\<exists>ext\<in>set extensions. endswith n ext))"
proof -
  have m: "''./sub/c.hpp'' \<in> set (find_source_files ''.'' scenario_fs)"
    by (simp add: scenario_enumeration)
  with enumerator_returns_existing_source_files[of "''.''" scenario_fs] show ?thesis
    by blast
qed

section \<open>The formatter script\<close>

lemma format_file_dry_run:
  "spawned (snd (format_file T p True w)) = spawned w @ [dry_run_cmd p]"
  "fs (snd (format_file T p True w)) = snd (T (dry_run_cmd p) (fs w))"
  "fst (format_file T p True w) =
     (case fst (T (dry_run_cmd p) (fs w)) of Completed rc out err \<Rightarrow> rc \<noteq> 0 | Raises e \<Rightarrow> False)"
  by (auto simp: format_file_def subprocess_run_def split: prod.splits outcome.splits)

lemma format_file_in_place:
  "spawned (snd (format_file T p False w)) = spawned w @ [in_place_cmd p]"
  "fs (snd (format_file T p False w)) = snd (T (in_place_cmd p) (fs w))"
  "fst (format_file T p False w) =
     (case fst (T (in_place_cmd p) (fs w)) of Completed rc out err \<Rightarrow> rc = 0 | Raises e \<Rightarrow> False)"
  by (auto simp: format_file_def subprocess_run_def split: prod.splits outcome.splits)

lemma check_loop_step:
  "check_loop T (p # ps) acc w =
     (if fst (format_file T p True w)
      then check_loop T ps (acc @ [p]) (print (''  NEEDS FORMATTING: '' @ p) (snd (format_file T p True w)))
      else check_loop T ps acc (print (''  OK: '' @ p) (snd (format_file T p True w))))"
  by (simp split: prod.splits bool.splits)

lemma apply_loop_step:
  "apply_loop T (p # ps) n w =
     (if fst (format_file T p False w)
      then apply_loop T ps (n + 1) (print (''  FORMATTED: '' @ p) (snd (format_file T p False w)))
      else apply_loop T ps n (print (''  ERROR: '' @ p) (snd (format_file T p False w))))"
  by (simp split: prod.splits bool.splits)

lemma check_loop_spawned:
  "spawned (snd (check_loop T ps acc w)) = spawned w @ map dry_run_cmd ps"
proof (induction ps arbitrary: acc w)
  case Nil
  show ?case by simp
next
  case (Cons p ps)
  show ?case
    unfolding check_loop_step by (simp add: Cons.IH format_file_dry_run)
qed

lemma check_loop_fs:
  assumes "\<forall>p f. snd (T (dry_run_cmd p) f) = f"
  shows "fs (snd (check_loop T ps acc w)) = fs w"
proof (induction ps arbitrary: acc w)
  case Nil
  show ?case by simp
next
  case (Cons p ps)
  show ?case
    unfolding check_loop_step by (simp add: Cons.IH format_file_dry_run assms)
qed

lemma check_loop_verdicts:
  "fst (check_loop T ps acc w) = [] \<longleftrightarrow> acc = [] \<and> True \<notin> set (needs_formatting T ps (fs w))"
proof (induction ps arbitrary: acc w)
  case Nil
  show ?case by simp
next
  case (Cons p ps)
  show ?case
    unfolding check_loop_step
    by (cases "T (dry_run_cmd p) (fs w)"; cases "fst (T (dry_run_cmd p) (fs w))")
       (auto simp: Cons.IH format_file_dry_run)
qed

lemma check_clang_format_fields:
  "spawned (snd (check_clang_format T w)) = spawned w @ [[''clang-format'', ''--version'']]"
  "fs (snd (check_clang_format T w)) = snd (T [''clang-format'', ''--version''] (fs w))"
  by (auto simp: check_clang_format_def clang_format_not_found_def subprocess_run_def
      split: prod.splits outcome.splits exn.splits)

lemma check_loop_result:
  assumes "check_loop T ps acc w = (r, w1)"
  shows "spawned w1 = spawned w @ map dry_run_cmd ps"
    and "(\<forall>p f. snd (T (dry_run_cmd p) f) = f) \<Longrightarrow> fs w1 = fs w"
    and "r = [] \<longleftrightarrow> acc = [] \<and> True \<notin> set (needs_formatting T ps (fs w))"
  using check_loop_spawned[of T ps acc w] check_loop_fs[of T ps acc w]
    check_loop_verdicts[of T ps acc w] assms by simp_all

lemma format_body_check_spawned:
  assumes "check args"
  shows "spawned (snd (format_body T args w)) =
    spawned w @ map dry_run_cmd (find_source_files (directory args) (fs w))"
proof (cases "find_source_files (directory args) (fs w) = []")
  case True
  then show ?thesis by (simp add: format_body_def)
next
  case False
  with assms show ?thesis
    by (auto simp: format_body_def Let_def split: prod.splits dest: check_loop_result(1))
qed

lemma format_body_check_fs:
  assumes "check args" "\<forall>p f. snd (T (dry_run_cmd p) f) = f"
  shows "fs (snd (format_body T args w)) = fs w"
proof (cases "find_source_files (directory args) (fs w) = []")
  case True
  then show ?thesis by (simp add: format_body_def)
next
  case False
  with assms show ?thesis
    by (auto simp: format_body_def Let_def split: prod.splits dest: check_loop_result(2))
qed

lemma format_body_check_code:
  assumes "check args"
  shows "fst (format_body T args w) =
    (if True \<in> set (needs_formatting T (find_source_files (directory args) (fs w)) (fs w))
     then 1 else 0)"
proof (cases "find_source_files (directory args) (fs w) = []")
  case True
  then show ?thesis by (simp add: format_body_def)
next
  case False
  with assms show ?thesis
    by (auto simp: format_body_def Let_def split: prod.splits dest: check_loop_result(3))
qed

lemma format_body_apply_code:
  assumes "\<not> check args"
  shows "fst (format_body T args w) = 0"
  using assms by (simp add: format_body_def Let_def split: prod.splits)

lemma format_main_cases:
  obtains (raised) e where "fst (check_clang_format T w) = Inl e"
      "format_main T args w = (Inl e, snd (check_clang_format T w))"
  | (absent) "fst (check_clang_format T w) = Inr False"
      "format_main T args w = (Inr 1, snd (check_clang_format T w))"
  | (found) "fst (check_clang_format T w) = Inr True"
      "format_main T args w =
         (Inr (fst (format_body T args (snd (check_clang_format T w)))),
          snd (format_body T args (snd (check_clang_format T w))))"
proof (cases "check_clang_format T w")
  case (Pair r w1)
  show ?thesis
  proof (cases r)
    case (Inl e)
    with Pair raised[of e] show ?thesis
      by (simp add: format_main_def bind_io_def)
  next
    case (Inr b)
    with Pair absent found show ?thesis
      by (cases b) (simp_all add: format_main_def bind_io_def split: prod.splits)
  qed
qed

lemma cmd_shapes:
  "in_place_cmd p \<noteq> [''clang-format'', ''--version'']"
  "in_place_cmd p \<noteq> dry_run_cmd q"
  by (simp_all add: in_place_cmd_def dry_run_cmd_def)

text \<open>
  C8. In check mode the formatter spawns only the version probe and dry-run invocations,
  never the in-place one; so, whenever the probe and the dry run of clang-format leave
  the file system alone, the file system after the run is the one before it, and with it
  the contents of every file.
\<close>

theorem check_mode_never_rewrites_files:
  "check args \<Longrightarrow>
     (\<exists>cmds. spawned (snd (format_main T args w)) = spawned w @ cmds \<and>
        (\<forall>c\<in>set cmds. c = [''clang-format'', ''--version''] \<or> (\<exists>p. c = dry_run_cmd p)) \<and>
        (\<forall>p. in_place_cmd p \<notin> set cmds)) \<and>
     ((\<forall>f. snd (T [''clang-format'', ''--version''] f) = f) \<and>
      (\<forall>p f. snd (T (dry_run_cmd p) f) = f) \<longrightarrow>
        fs (snd (format_main T args w)) = fs w)"
proof
  assume c: "check args"
  let ?probe = "[''clang-format'', ''--version'']"
  let ?w1 = "snd (check_clang_format T w)"
  have "\<exists>ps. spawned (snd (format_main T args w)) = spawned w @ ?probe # map dry_run_cmd ps"
  proof (cases rule: format_main_cases[of T w args])
    case (raised e)
    then have "spawned (snd (format_main T args w)) = spawned w @ ?probe # map dry_run_cmd []"
      by (simp add: check_clang_format_fields)
    then show ?thesis by blast
  next
    case absent
    then have "spawned (snd (format_main T args w)) = spawned w @ ?probe # map dry_run_cmd []"
      by (simp add: check_clang_format_fields)
    then show ?thesis by blast
  next
    case found
    with c have "spawned (snd (format_main T args w)) =
        spawned w @ ?probe # map dry_run_cmd (find_source_files (directory args) (fs ?w1))"
      by (simp add: check_clang_format_fields format_body_check_spawned)
    then show ?thesis by blast
  qed
  then obtain ps where ps: "spawned (snd (format_main T args w)) = spawned w @ ?probe # map dry_run_cmd ps"
    by blast
  have "\<forall>c\<in>set (?probe # map dry_run_cmd ps). c = ?probe \<or> (\<exists>p. c = dry_run_cmd p)"
    by auto
  moreover have "\<forall>p. in_place_cmd p \<notin> set (?probe # map dry_run_cmd ps)"
    using cmd_shapes by auto
  ultimately show "\<exists>cmds. spawned (snd (format_main T args w)) = spawned w @ cmds \<and>
        (\<forall>c\<in>set cmds. c = ?probe \<or> (\<exists>p. c = dry_run_cmd p)) \<and>
        (\<forall>p. in_place_cmd p \<notin> set cmds)"
    using ps by blast
next
  assume c: "check args"
  show "(\<forall>f. snd (T [''clang-format'', ''--version''] f) = f) \<and>
      (\<forall>p f. snd (T (dry_run_cmd p) f) = f) \<longrightarrow>
        fs (snd (format_main T args w)) = fs w"
  proof
    assume pure: "(\<forall>f. snd (T [''clang-format'', ''--version''] f) = f) \<and>
      (\<forall>p f. snd (T (dry_run_cmd p) f) = f)"
    then have p1: "fs (snd (check_clang_format T w)) = fs w"
      by (simp add: check_clang_format_fields)
    show "fs (snd (format_main T args w)) = fs w"
    proof (cases rule: format_main_cases[of T w args])
      case (raised e)
      with p1 show ?thesis by simp
    next
      case absent
      with p1 show ?thesis by simp
    next
      case found
      with p1 c pure show ?thesis
        by (simp add: format_body_check_fs)
    qed
  qed
qed

lemmas scenario_defs =
  scenario_world_def scenario_fs_def scenario_tree_def
  format_main_def bind_io_def check_clang_format_def subprocess_run_def print_def
  format_body_def find_source_files_def exclude_dirs_def extensions_def os_path_join_def
  endswith_def format_file_def in_place_cmd_def dry_run_cmd_def Let_def str_nat.simps strip_def
  py_isspace_def

lemma rewriting_check_run:
  "spawned (snd (format_main tools_rewriting \<lparr>check = True, directory = ''.''\<rparr> scenario_world)) =
     [[''clang-format'', ''--version''], dry_run_cmd ''./a.cpp'', dry_run_cmd ''./sub/c.hpp'']"
  "fst (format_main tools_rewriting \<lparr>check = True, directory = ''.''\<rparr> scenario_world) = Inr 1"
  by (simp_all add: scenario_defs tools_rewriting_def)

lemma rewriting_apply_run:
  "walk_tree (fs (snd (format_main tools_rewriting \<lparr>check = False, directory = ''.''\<rparr> scenario_world))) ''.'' =
     Dir [(''a.cpp'', File ''int x;'')]"
  by (simp add: scenario_defs tools_rewriting_def)

theorem check_mode_never_rewrites_files_witness:
  "check \<lparr>check = True, directory = ''.''\<rparr> \<and>
   fs (snd (format_main tools_rewriting \<lparr>check = True, directory = ''.''\<rparr> scenario_world)) = scenario_fs \<and>
   walk_tree (fs (snd (format_main tools_rewriting \<lparr>check = True, directory = ''.''\<rparr> scenario_world))) ''.'' =
     scenario_tree \<and>
   walk_tree (fs (snd (format_main tools_rewriting \<lparr>check = False, directory = ''.''\<rparr> scenario_world))) ''.'' =
     Dir [(''a.cpp'', File ''int x;'')] \<and>
   spawned (snd (format_main tools_rewriting \<lparr>check = True, directory = ''.''\<rparr> scenario_world)) =
     [[''clang-format'', ''--version''], dry_run_cmd ''./a.cpp'', dry_run_cmd ''./sub/c.hpp'']"
proof -
  have c: "check \<lparr>check = True, directory = ''.''\<rparr>" by simp
  have pure: "(\<forall>f. snd (tools_rewriting [''clang-format'', ''--version''] f) = f) \<and>
      (\<forall>p f. snd (tools_rewriting (dry_run_cmd p) f) = f)"
    by (simp add: tools_rewriting_def dry_run_cmd_def)
  from check_mode_never_rewrites_files[OF c, of tools_rewriting scenario_world] pure
  have "fs (snd (format_main tools_rewriting \<lparr>check = True, directory = ''.''\<rparr> scenario_world)) =
      fs scenario_world"
    by blast
  then have f: "fs (snd (format_main tools_rewriting \<lparr>check = True, directory = ''.''\<rparr> scenario_world)) =
      scenario_fs"
    by (simp add: scenario_world_def)
  then have "walk_tree (fs (snd (format_main tools_rewriting \<lparr>check = True, directory = ''.''\<rparr> scenario_world))) ''.'' =
     scenario_tree"
    by (simp add: scenario_fs_def)
  with c f rewriting_apply_run rewriting_check_run(1) show ?thesis
    by simp
qed

lemma format_body_check_report:
  assumes "check args" "find_source_files (directory args) (fs w) \<noteq> []"
    "True \<notin> set (needs_formatting T (find_source_files (directory args) (fs w)) (fs w))"
  shows "last (console (snd (format_body T args w))) = CHR 0x0A # ''All files are properly formatted!''"
  using assms
  by (auto simp: format_body_def Let_def split: prod.splits dest: check_loop_result(3))

lemma check_clang_format_outcome:
  "T [''clang-format'', ''--version''] (fs w) = (Completed rc out err, f1) \<Longrightarrow>
     fst (check_clang_format T w) = Inr (rc = 0) \<and> fs (snd (check_clang_format T w)) = f1 \<and>
     (rc = 0 \<longrightarrow> console (snd (check_clang_format T w)) =
        console w @ [''Found clang-format: '' @ strip out])"
  "T [''clang-format'', ''--version''] (fs w) = (Raises (FileNotFoundError m), f1) \<Longrightarrow>
     fst (check_clang_format T w) = Inr False"
  "T [''clang-format'', ''--version''] (fs w) = (Raises (OtherException m), f1) \<Longrightarrow>
     fst (check_clang_format T w) = Inl (OtherException m)"
  by (simp_all add: check_clang_format_def subprocess_run_def clang_format_not_found_def)

lemma apply_loop_count:
  "fst (apply_loop T ps n w) = n + length (filter id (formatted_without_error T ps (fs w)))"
proof (induction ps arbitrary: n w)
  case Nil
  show ?case by simp
next
  case (Cons p ps)
  show ?case
    unfolding apply_loop_step
    by (cases "T (in_place_cmd p) (fs w)"; cases "fst (T (in_place_cmd p) (fs w))")
       (auto simp: Cons.IH format_file_in_place)
qed

lemma format_file_in_place_console:
  "console (snd (format_file T p False w)) =
     console w @ (case fst (T (in_place_cmd p) (fs w)) of
                    Completed rc out err \<Rightarrow> []
                  | Raises e \<Rightarrow> [''Error formatting '' @ p @ '': '' @ exn_msg e])"
  by (auto simp: format_file_def subprocess_run_def split: prod.splits outcome.splits)

lemma apply_loop_console:
  "console (snd (apply_loop T ps n w)) = console w @ apply_lines T ps (fs w)"
proof (induction ps arbitrary: n w)
  case Nil
  show ?case by simp
next
  case (Cons p ps)
  show ?case
    unfolding apply_loop_step
    by (cases "T (in_place_cmd p) (fs w)"; cases "fst (T (in_place_cmd p) (fs w))")
       (auto simp: Cons.IH format_file_in_place format_file_in_place_console)
qed

lemma format_body_apply_console:
  assumes "\<not> check args" "find_source_files (directory args) (fs w) \<noteq> []"
  shows "console (snd (format_body T args w)) =
    console w @
    [''Searching for source files in: '' @ os_path_abspath (fs w) (directory args),
     ''Found '' @ str_nat (length (find_source_files (directory args) (fs w))) @ '' source files.'',
     ''Formatting files...''] @
    apply_lines T (find_source_files (directory args) (fs w)) (fs w) @
    [CHR 0x0A # ''Formatted '' @
       str_nat (length (filter id
          (formatted_without_error T (find_source_files (directory args) (fs w)) (fs w)))) @
       ''/'' @ str_nat (length (find_source_files (directory args) (fs w))) @ '' files.'']"
proof -
  let ?ps = "find_source_files (directory args) (fs w)"
  let ?w2 = "print ''Formatting files...''
      (print (''Found '' @ str_nat (length ?ps) @ '' source files.'')
        (print (''Searching for source files in: '' @ os_path_abspath (fs w) (directory args)) w))"
  have "format_body T args w =
      (0, print (CHR 0x0A # ''Formatted '' @ str_nat (fst (apply_loop T ?ps 0 ?w2)) @ ''/'' @
                   str_nat (length ?ps) @ '' files.'') (snd (apply_loop T ?ps 0 ?w2)))"
    using assms by (simp add: format_body_def Let_def split: prod.splits)
  then show ?thesis
    by (simp add: apply_loop_count apply_loop_console)
qed

text \<open>
  C1, as the code has it. The formatter's \<^verbatim>\<open>main\<close> returns 1 when clang-format is
  unavailable: when the version probe completes with a non-zero return code, and when the
  executable is not found. An exception of the probe other than the lookup failure leaves
  \<^verbatim>\<open>main\<close> uncaught. When the probe completes with return code 0, in check mode
  \<^verbatim>\<open>main\<close> returns 1 if the dry run of some enumerated file returns a non-zero code and
  0 if none does; in apply mode it returns 0, whatever the in-place runs returned. In
  check mode over a non-empty set of files none of which needs formatting the last line
  printed is "All files are properly formatted!". In apply mode over a non-empty set of
  files a failed file is printed as an ERROR line and is left out of the count of the
  closing "Formatted n/m files." line, which counts the files formatted without error.
\<close>

theorem format_main_exit_code:
  "fst (format_main T args w) =
     (case T [''clang-format'', ''--version''] (fs w) of
        (Raises (FileNotFoundError m), f1) \<Rightarrow> Inr 1
      | (Raises (OtherException m), f1) \<Rightarrow> Inl (OtherException m)
      | (Completed rc out err, f1) \<Rightarrow>
          if rc \<noteq> 0 then Inr 1
          else if check args \<and>
                  True \<in> set (needs_formatting T (find_source_files (directory args) f1) f1)
          then Inr 1
          else Inr 0) \<and>
   (\<forall>out err f1.
      T [''clang-format'', ''--version''] (fs w) = (Completed 0 out err, f1) \<and> check args \<and>
      find_source_files (directory args) f1 \<noteq> [] \<and>
      True \<notin> set (needs_formatting T (find_source_files (directory args) f1) f1) \<longrightarrow>
      last (console (snd (format_main T args w))) = CHR 0x0A # ''All files are properly formatted!'') \<and>
   (\<forall>out err f1.
      T [''clang-format'', ''--version''] (fs w) = (Completed 0 out err, f1) \<and> \<not> check args \<and>
      find_source_files (directory args) f1 \<noteq> [] \<longrightarrow>
      console (snd (format_main T args w)) =
        console w @
        [''Found clang-format: '' @ strip out,
         ''Searching for source files in: '' @ os_path_abspath f1 (directory args),
         ''Found '' @ str_nat (length (find_source_files (directory args) f1)) @ '' source files.'',
         ''Formatting files...''] @
        apply_lines T (find_source_files (directory args) f1) f1 @
        [CHR 0x0A # ''Formatted '' @
           str_nat (length (filter id
              (formatted_without_error T (find_source_files (directory args) f1) f1))) @
           ''/'' @ str_nat (length (find_source_files (directory args) f1)) @ '' files.''])"
proof (intro conjI allI impI)
  show "fst (format_main T args w) =
     (case T [''clang-format'', ''--version''] (fs w) of
        (Raises (FileNotFoundError m), f1) \<Rightarrow> Inr 1
      | (Raises (OtherException m), f1) \<Rightarrow> Inl (OtherException m)
      | (Completed rc out err, f1) \<Rightarrow>
          if rc \<noteq> 0 then Inr 1
          else if check args \<and>
                  True \<in> set (needs_formatting T (find_source_files (directory args) f1) f1)
          then Inr 1
          else Inr 0)"
  proof (cases "T [''clang-format'', ''--version''] (fs w)")
    case (Pair r f1)
    show ?thesis
    proof (cases r)
      case (Raises e)
      show ?thesis
      proof (cases e)
        case (FileNotFoundError m)
        with Pair Raises check_clang_format_outcome(2)[of T w m f1] show ?thesis
          by (cases rule: format_main_cases[of T w args]) simp_all
      next
        case (OtherException m)
        with Pair Raises check_clang_format_outcome(3)[of T w m f1] show ?thesis
          by (cases rule: format_main_cases[of T w args]) simp_all
      qed
    next
      case (Completed rc out err)
      with Pair have p: "T [''clang-format'', ''--version''] (fs w) = (Completed rc out err, f1)"
        by simp
      note o = check_clang_format_outcome(1)[of T w rc out err f1, OF p]
      show ?thesis
      proof (cases rule: format_main_cases[of T w args])
        case (raised e)
        with o show ?thesis by simp
      next
        case absent
        with o p show ?thesis by simp
      next
        case found
        with o p show ?thesis
          by (cases "check args") (simp_all add: format_body_check_code format_body_apply_code)
      qed
    qed
  qed
next
  fix out err f1
  assume a: "T [''clang-format'', ''--version''] (fs w) = (Completed 0 out err, f1) \<and> check args \<and>
      find_source_files (directory args) f1 \<noteq> [] \<and>
      True \<notin> set (needs_formatting T (find_source_files (directory args) f1) f1)"
  note o = check_clang_format_outcome(1)[of T w 0 out err f1, OF conjunct1[OF a]]
  from o a show "last (console (snd (format_main T args w))) =
      CHR 0x0A # ''All files are properly formatted!''"
    by (cases rule: format_main_cases[of T w args]) (simp_all add: format_body_check_report)
next
  fix out err f1
  assume a: "T [''clang-format'', ''--version''] (fs w) = (Completed 0 out err, f1) \<and> \<not> check args \<and>
      find_source_files (directory args) f1 \<noteq> []"
  note o = check_clang_format_outcome(1)[of T w 0 out err f1, OF conjunct1[OF a]]
  from o a show "console (snd (format_main T args w)) =
        console w @
        [''Found clang-format: '' @ strip out,
         ''Searching for source files in: '' @ os_path_abspath f1 (directory args),
         ''Found '' @ str_nat (length (find_source_files (directory args) f1)) @ '' source files.'',
         ''Formatting files...''] @
        apply_lines T (find_source_files (directory args) f1) f1 @
        [CHR 0x0A # ''Formatted '' @
           str_nat (length (filter id
              (formatted_without_error T (find_source_files (directory args) f1) f1))) @
           ''/'' @ str_nat (length (find_source_files (directory args) f1)) @ '' files.'']"
    by (cases rule: format_main_cases[of T w args]) (simp_all add: format_body_apply_console)
qed

lemma scenario_probe_runs:
  "tools_clean [''clang-format'', ''--version''] (fs scenario_world) = (Completed 0 [] [], scenario_fs)"
  "tools_format_fails [''clang-format'', ''--version''] (fs scenario_world) =
     (Completed 0 ''clang-format version 17'' [], scenario_fs)"
  "console scenario_world = []"
  by (simp_all add: tools_clean_def tools_format_fails_def scenario_world_def)

lemma scenario_file_runs:
  "find_source_files ''.'' scenario_fs \<noteq> []"
  "length (find_source_files ''.'' scenario_fs) = 2"
  "needs_formatting tools_clean (find_source_files ''.'' scenario_fs) scenario_fs = [False, False]"
  "formatted_without_error tools_format_fails (find_source_files ''.'' scenario_fs) scenario_fs =
     [False, False]"
  "apply_lines tools_format_fails (find_source_files ''.'' scenario_fs) scenario_fs =
     [''  ERROR: ./a.cpp'', ''  ERROR: ./sub/c.hpp'']"
  by (simp_all add: scenario_enumeration tools_clean_def tools_format_fails_def dry_run_cmd_def
      in_place_cmd_def)

lemma scenario_strings:
  "os_path_abspath scenario_fs ''.'' = ''/repo/.''"
  "strip ''clang-format version 17'' = ''clang-format version 17''"
  "str_nat 0 = ''0''" "str_nat 2 = ''2''"
  by (simp_all add: scenario_fs_def strip_def py_isspace_def str_nat.simps)

theorem format_main_exit_code_witness:
  "tools_clean [''clang-format'', ''--version''] (fs scenario_world) = (Completed 0 [] [], scenario_fs) \<and>
   check \<lparr>check = True, directory = ''.''\<rparr> \<and>
   fst (format_main tools_clean \<lparr>check = True, directory = ''.''\<rparr> scenario_world) = Inr 0 \<and>
   last (console (snd (format_main tools_clean \<lparr>check = True, directory = ''.''\<rparr> scenario_world))) =
     CHR 0x0A # ''All files are properly formatted!'' \<and>
   tools_format_fails [''clang-format'', ''--version''] (fs scenario_world) =
     (Completed 0 ''clang-format version 17'' [], scenario_fs) \<and>
   \<not> check \<lparr>check = False, directory = ''.''\<rparr> \<and>
   console (snd (format_main tools_format_fails \<lparr>check = False, directory = ''.''\<rparr> scenario_world)) =
     [''Found clang-format: clang-format version 17'',
      ''Searching for source files in: /repo/.'',
      ''Found 2 source files.'', ''Formatting files...'',
      ''  ERROR: ./a.cpp'', ''  ERROR: ./sub/c.hpp'',
      CHR 0x0A # ''Formatted 0/2 files.'']"
proof -
  note c = format_main_exit_code[of tools_clean "\<lparr>check = True, directory = ''.''\<rparr>" scenario_world]
  note a = format_main_exit_code[of tools_format_fails "\<lparr>check = False, directory = ''.''\<rparr>"
      scenario_world]
  from conjunct1[OF c] have 1:
    "fst (format_main tools_clean \<lparr>check = True, directory = ''.''\<rparr> scenario_world) = Inr 0"
    by (simp add: scenario_probe_runs scenario_file_runs)
  from conjunct1[OF conjunct2[OF c], rule_format, of "[]" "[]" scenario_fs] have 2:
    "last (console (snd (format_main tools_clean \<lparr>check = True, directory = ''.''\<rparr> scenario_world))) =
     CHR 0x0A # ''All files are properly formatted!''"
    by (simp add: scenario_probe_runs scenario_file_runs)
  from conjunct2[OF conjunct2[OF a], rule_format, of "''clang-format version 17''" "[]" scenario_fs]
  have 3: "console (snd (format_main tools_format_fails \<lparr>check = False, directory = ''.''\<rparr> scenario_world)) =
     [''Found clang-format: clang-format version 17'',
      ''Searching for source files in: /repo/.'',
      ''Found 2 source files.'', ''Formatting files...'',
      ''  ERROR: ./a.cpp'', ''  ERROR: ./sub/c.hpp'',
      CHR 0x0A # ''Formatted 0/2 files.'']"
    by (simp add: scenario_probe_runs scenario_file_runs scenario_strings)
  from 1 2 3 scenario_probe_runs(1,2) show ?thesis by simp
qed

text \<open>
  The specification's exit-code rule fails in apply mode: with a clang-format whose in-place run fails
  on both files of the scenario, no file is formatted without error and \<^verbatim>\<open>main\<close>
  still returns 0.
\<close>

theorem apply_mode_returns_zero_on_errors:
  "fst (format_main tools_format_fails \<lparr>check = False, directory = ''.''\<rparr> scenario_world) = Inr 0 \<and>
   formatted_without_error tools_format_fails (find_source_files ''.'' scenario_fs) scenario_fs =
     [False, False] \<and>
   console (snd (format_main tools_format_fails \<lparr>check = False, directory = ''.''\<rparr> scenario_world)) =
     [''Found clang-format: clang-format version 17'',
      ''Searching for source files in: /repo/.'',
      ''Found 2 source files.'', ''Formatting files...'',
      ''  ERROR: ./a.cpp'', ''  ERROR: ./sub/c.hpp'',
      CHR 0x0A # ''Formatted 0/2 files.'']"
  by (simp add: scenario_defs tools_format_fails_def scenario_enumeration[unfolded find_source_files_def scenario_fs_def])

section \<open>The availability probes\<close>

text \<open>
  C9. When spawning the probed executable fails because the operating system cannot
  find it, both probes (\<^verbatim>\<open>check_tool\<close> of analyze.py and \<^verbatim>\<open>check_clang_format\<close> of
  format.py) catch the failure: they print the not-found message ending with the install
  hint and return False to the caller instead of raising.
\<close>

theorem probe_catches_lookup_failure:
  "(T [tool_name, ''--version''] (fs w) = (Raises (FileNotFoundError m), f) \<longrightarrow>
      fst (check_tool T tool_name install_instructions w) = Inr False \<and>
      console (snd (check_tool T tool_name install_instructions w)) =
        console w @ [cross_mark @ '' '' @ tool_name @ '' not found'',
                     ''  Install: '' @ install_instructions]) \<and>
   (T [''clang-format'', ''--version''] (fs w) = (Raises (FileNotFoundError m), f) \<longrightarrow>
      fst (check_clang_format T w) = Inr False \<and>
      console (snd (check_clang_format T w)) =
        console w @ [''ERROR: clang-format not found!'', ''Please install clang-format:'',
                     ''  Windows: Install LLVM from https://llvm.org/builds/'',
                     ''  Linux: sudo apt install clang-format (or equivalent)'',
                     ''  macOS: brew install clang-format''])"
  by (simp add: check_tool_def check_clang_format_def subprocess_run_def tool_not_found_def
      clang_format_not_found_def)

theorem probe_catches_lookup_failure_witness:
  "tools_absent [''cppcheck'', ''--version''] (fs scenario_world) =
     (Raises (FileNotFoundError ''No such file or directory''), scenario_fs) \<and>
   tools_absent [''clang-format'', ''--version''] (fs scenario_world) =
     (Raises (FileNotFoundError ''No such file or directory''), scenario_fs) \<and>
   fst (check_tool tools_absent ''cppcheck'' ''apt install cppcheck'' scenario_world) = Inr False \<and>
   console (snd (check_tool tools_absent ''cppcheck'' ''apt install cppcheck'' scenario_world)) =
     [cross_mark @ '' cppcheck not found'', ''  Install: apt install cppcheck''] \<and>
   fst (check_clang_format tools_absent scenario_world) = Inr False"
proof -
  have h: "tools_absent [''cppcheck'', ''--version''] (fs scenario_world) =
     (Raises (FileNotFoundError ''No such file or directory''), scenario_fs)"
    "tools_absent [''clang-format'', ''--version''] (fs scenario_world) =
     (Raises (FileNotFoundError ''No such file or directory''), scenario_fs)"
    by (simp_all add: tools_absent_def scenario_world_def)
  have c: "console scenario_world = []"
    by (simp add: scenario_world_def)
  from h c probe_catches_lookup_failure[of tools_absent "''cppcheck''" scenario_world
      "''No such file or directory''" scenario_fs "''apt install cppcheck''"]
  show ?thesis by simp
qed

section \<open>The analyzer script\<close>

lemma run_cppcheck_spawned:
  "spawned (snd (run_cppcheck T dirs w)) =
     spawned w @ [cppcheck_flags @ filter (os_path_exists (fs w)) dirs]"
  by (simp add: run_cppcheck_def Let_def subprocess_run_def split: prod.splits outcome.splits)

lemma run_cppcheck_completed:
  assumes "T (cppcheck_flags @ filter (os_path_exists (fs w)) dirs) (fs w) = (Completed rc out err, f)"
  shows "fst (run_cppcheck T dirs w) = rc"
    and "console (snd (run_cppcheck T dirs w)) =
      console w @ [CHR 0x0A # rule60, ''Running cppcheck...'', rule60] @
      (if out \<noteq> [] then [''Issues found:'', out] else [''No issues found by cppcheck!'']) @
      (if err \<noteq> [] then [''Warnings/Info:'', err] else [])"
  using assms by (simp_all add: run_cppcheck_def Let_def subprocess_run_def)

text \<open>
  C5, as the code has it. The cppcheck runner makes exactly one subprocess invocation:
  the fixed flags followed by those directories of the list that exist, in order;
  directories that do not exist are left out without a message. When the invocation
  completes, its return code is the runner's, its standard output (when not empty) is
  printed verbatim after "Issues found:" and its standard error (when not empty) verbatim
  after "Warnings/Info:".
\<close>

theorem cppcheck_single_invocation:
  "spawned (snd (run_cppcheck T dirs w)) =
     spawned w @ [cppcheck_flags @ filter (os_path_exists (fs w)) dirs] \<and>
   (T (cppcheck_flags @ filter (os_path_exists (fs w)) dirs) (fs w) = (Completed rc out err, f) \<longrightarrow>
      fst (run_cppcheck T dirs w) = rc \<and>
      console (snd (run_cppcheck T dirs w)) =
        console w @ [CHR 0x0A # rule60, ''Running cppcheck...'', rule60] @
        (if out \<noteq> [] then [''Issues found:'', out] else [''No issues found by cppcheck!'']) @
        (if err \<noteq> [] then [''Warnings/Info:'', err] else []))"
  using run_cppcheck_spawned[of T dirs w] run_cppcheck_completed[of T w dirs rc out err f]
  by blast

lemma scenario_source_dirs:
  "filter (os_path_exists (fs scenario_world)) source_dirs = [''SilicaEngine/src'', ''Fractura/src'']"
  by (simp add: scenario_world_def scenario_fs_def source_dirs_def)

theorem cppcheck_single_invocation_witness:
  "tools_warning (cppcheck_flags @ filter (os_path_exists (fs scenario_world)) source_dirs)
     (fs scenario_world) = (Completed 0 ''a.cpp:1:1: warning: unused variable'' [], scenario_fs) \<and>
   spawned (snd (run_cppcheck tools_warning source_dirs scenario_world)) =
     [cppcheck_flags @ [''SilicaEngine/src'', ''Fractura/src'']] \<and>
   fst (run_cppcheck tools_warning source_dirs scenario_world) = 0 \<and>
   console (snd (run_cppcheck tools_warning source_dirs scenario_world)) =
     [CHR 0x0A # rule60, ''Running cppcheck...'', rule60,
      ''Issues found:'', ''a.cpp:1:1: warning: unused variable'']"
proof -
  have h: "tools_warning (cppcheck_flags @ filter (os_path_exists (fs scenario_world)) source_dirs)
     (fs scenario_world) = (Completed 0 ''a.cpp:1:1: warning: unused variable'' [], scenario_fs)"
    by (simp add: tools_warning_def scenario_world_def)
  have e: "spawned scenario_world = []" "console scenario_world = []"
    by (simp_all add: scenario_world_def)
  from cppcheck_single_invocation[of tools_warning source_dirs scenario_world 0
      "''a.cpp:1:1: warning: unused variable''" "[]" scenario_fs] h
  show ?thesis
    by (simp add: e scenario_source_dirs)
qed

text \<open>
  One invocation per existing directory is not what the runner does: two of the three source directories of the scenario exist,
  and the runner makes one invocation, naming both, not one invocation for each.
\<close>

theorem cppcheck_one_invocation_for_two_directories:
  "filter (os_path_exists (fs scenario_world)) source_dirs = [''SilicaEngine/src'', ''Fractura/src''] \<and>
   spawned (snd (run_cppcheck tools_clean source_dirs scenario_world)) =
     [cppcheck_flags @ [''SilicaEngine/src'', ''Fractura/src'']]"
  by (simp add: run_cppcheck_spawned scenario_source_dirs) (simp add: scenario_world_def)

lemma run_clang_tidy_missing:
  assumes "\<not> os_path_exists (fs w) (compile_commands_path bd)"
  shows "run_clang_tidy T bd w =
    (1, print ''Please build the project with CMAKE_EXPORT_COMPILE_COMMANDS=ON''
          (print (''ERROR: '' @ compile_commands_path bd @ '' not found!'')
            (banner ''Running clang-tidy...'' w)))"
  using assms by (simp add: run_clang_tidy_def Let_def)

lemma run_clang_tidy_present:
  assumes "os_path_exists (fs w) (compile_commands_path bd)"
  shows "fst (run_clang_tidy T bd w) = 0"
  using assms by (simp add: run_clang_tidy_def Let_def split: prod.splits)

lemma run_include_what_you_use_fields:
  "fst (run_include_what_you_use w) = 0"
  "spawned (snd (run_include_what_you_use w)) = spawned w"
  "fs (snd (run_include_what_you_use w)) = fs w"
  "console (snd (run_include_what_you_use w)) =
     console w @ [CHR 0x0A # rule60, ''Running include-what-you-use...'', rule60,
       ''include-what-you-use requires compilation with special flags.'',
       ''This is complex to set up automatically. Please refer to:'',
       ''https://include-what-you-use.org/'']"
  by (simp_all add: run_include_what_you_use_def)

lemma run_if_simps:
  "run_if False runner s = s"
  "run_if True runner (ec, w) = (ec OR fst (runner w), snd (runner w))"
  by (simp_all add: run_if_def split: prod.splits)

lemma analyze_main_cases:
  obtains (raised) e w1 where
      "probe_tools T (tool args) (print rule60 (print ''Caelis Static Analysis'' w)) = (Inl e, w1)"
      "analyze_main T args w = (Inl e, w1)"
  | (probed) ta w1 where
      "probe_tools T (tool args) (print rule60 (print ''Caelis Static Analysis'' w)) = (Inr ta, w1)"
      "analyze_main T args w =
         (Inr (fst (run_tools T args ta w1)),
          banner ''Static analysis completed!'' (snd (run_tools T args ta w1)))"
proof (cases "probe_tools T (tool args) (print rule60 (print ''Caelis Static Analysis'' w))")
  case (Pair r w1)
  show ?thesis
  proof (cases r)
    case (Inl e)
    with Pair raised[of e w1] show ?thesis
      by (simp add: analyze_main_def bind_io_def)
  next
    case (Inr ta)
    with Pair probed[of ta w1] show ?thesis
      by (simp add: analyze_main_def bind_io_def split: prod.splits)
  qed
qed

lemma codes_if_simps:
  "codes_if False runner s = s"
  "codes_if True runner (cs, w) = (cs @ [fst (runner w)], snd (runner w))"
  by (simp_all add: codes_if_def split: prod.splits)

lemma run_if_refines_codes_if:
  assumes "fst s = foldl (OR) 0 (fst c)" "snd s = snd c"
  shows "fst (run_if b runner s) = foldl (OR) 0 (fst (codes_if b runner c)) \<and>
         snd (run_if b runner s) = snd (codes_if b runner c)"
  using assms by (cases s; cases c; cases b) (simp_all add: run_if_simps codes_if_simps)

lemma run_tools_is_or:
  "fst (run_tools T args ta w) = foldl (OR) 0 (executed_runner_codes T args ta w)"
proof -
  have 0: "fst (0::int, w) = foldl (OR) 0 (fst (([]::int list), w))" "snd (0::int, w) = snd (([]::int list), w)"
    by simp_all
  note 1 = run_if_refines_codes_if[OF 0, of "tool args \<in> set [Cppcheck, AllTools] \<and> dict_get ta ''cppcheck''"
      "run_cppcheck T source_dirs"]
  note 2 = run_if_refines_codes_if[OF conjunct1[OF 1] conjunct2[OF 1],
      of "tool args \<in> set [ClangTidy, AllTools] \<and> dict_get ta ''clang-tidy''" "run_clang_tidy T (build_dir args)"]
  note 3 = run_if_refines_codes_if[OF conjunct1[OF 2] conjunct2[OF 2],
      of "tool args \<in> set [Iwyu, AllTools]" run_include_what_you_use]
  from conjunct1[OF 3] show ?thesis
    unfolding run_tools_def executed_runner_codes_def .
qed

lemma or_fold_zero:
  "foldl (OR) (0::int) cs = 0 \<longleftrightarrow> (\<forall>c\<in>set cs. c = 0)"
  by (induction cs rule: rev_induct) (auto simp: or_eq_0_iff)

text \<open>
  C2. When the probes return, the analyzer's exit code is the bitwise OR of the return
  codes of the sub-tool runners it executed (cppcheck, clang-tidy, iwyu, in this order),
  and so it is 0 exactly when each executed runner returned 0.
\<close>

theorem analyzer_exit_code_is_or_of_runners:
  "fst (analyze_main T args w) =
     (case probe_tools T (tool args) (print rule60 (print ''Caelis Static Analysis'' w)) of
        (Inl e, w1) \<Rightarrow> Inl e
      | (Inr tools_available, w1) \<Rightarrow>
          Inr (foldl (OR) 0 (executed_runner_codes T args tools_available w1))) \<and>
   (\<forall>tools_available w1.
      probe_tools T (tool args) (print rule60 (print ''Caelis Static Analysis'' w)) =
        (Inr tools_available, w1) \<longrightarrow>
      (fst (analyze_main T args w) = Inr 0 \<longleftrightarrow>
       (\<forall>c\<in>set (executed_runner_codes T args tools_available w1). c = 0)))"
proof (cases rule: analyze_main_cases[of T args w])
  case (raised e w1)
  then show ?thesis by simp
next
  case (probed ta w1)
  then show ?thesis
    by (simp add: run_tools_is_or or_fold_zero)
qed

lemmas analyzer_defs =
  scenario_world_def scenario_fs_def scenario_tree_def built_world_def
  analyze_main_def probe_tools_def probe_if_def check_tool_def tool_not_found_def bind_io_def
  subprocess_run_def print_def banner_def run_tools_def run_if_def dict_get_def
  run_cppcheck_def run_clang_tidy_def run_include_what_you_use_def compile_commands_path_def
  clang_tidy_source_files_def clang_tidy_cmd_def source_dirs_def os_path_join_def endswith_def
  executed_runner_codes_def codes_if_def Let_def str_nat.simps

lemma clean_probe:
  "\<exists>ta w1. probe_tools tools_clean AllTools (print rule60 (print ''Caelis Static Analysis'' scenario_world)) =
      (Inr ta, w1) \<and>
     executed_runner_codes tools_clean \<lparr>tool = AllTools, build_dir = ''build''\<rparr> ta w1 = [0, 1, 0]"
  by (simp add: analyzer_defs tools_clean_def)

theorem analyzer_exit_code_is_or_of_runners_witness:
  "(\<exists>ta w1. probe_tools tools_clean AllTools (print rule60 (print ''Caelis Static Analysis'' scenario_world)) =
      (Inr ta, w1) \<and>
     executed_runner_codes tools_clean \<lparr>tool = AllTools, build_dir = ''build''\<rparr> ta w1 = [0, 1, 0]) \<and>
   fst (analyze_main tools_clean \<lparr>tool = AllTools, build_dir = ''build''\<rparr> scenario_world) = Inr 1 \<and>
   fst (analyze_main tools_clean \<lparr>tool = AllTools, build_dir = ''build''\<rparr> scenario_world) \<noteq> Inr 0"
proof -
  from clean_probe obtain ta w1 where
    p: "probe_tools tools_clean AllTools (print rule60 (print ''Caelis Static Analysis'' scenario_world)) =
      (Inr ta, w1)"
    and c: "executed_runner_codes tools_clean \<lparr>tool = AllTools, build_dir = ''build''\<rparr> ta w1 = [0, 1, 0]"
    by blast
  from analyzer_exit_code_is_or_of_runners[of tools_clean "\<lparr>tool = AllTools, build_dir = ''build''\<rparr>"
      scenario_world] p c
  have "fst (analyze_main tools_clean \<lparr>tool = AllTools, build_dir = ''build''\<rparr> scenario_world) = Inr 1"
    by simp
  with clean_probe show ?thesis by simp
qed

lemma run_tools_after_cppcheck:
  assumes "run_if (tool args \<in> set [Cppcheck, AllTools] \<and> dict_get ta ''cppcheck'')
             (run_cppcheck T source_dirs) (0, w1) = (rc0, w2)"
  shows "run_tools T args ta w1 =
    run_if (tool args \<in> set [Iwyu, AllTools]) run_include_what_you_use
      (run_if (tool args \<in> set [ClangTidy, AllTools] \<and> dict_get ta ''clang-tidy'')
         (run_clang_tidy T (build_dir args)) (rc0, w2))"
  using assms by (simp add: run_tools_def)

lemma run_if_fields:
  "fst (run_if b runner (ec, w)) = (if b then ec OR fst (runner w) else ec)"
  "snd (run_if b runner (ec, w)) = (if b then snd (runner w) else w)"
  by (simp_all add: run_if_def split: prod.splits)

lemma run_if_pair:
  "run_if b runner (ec, w) = (fst (run_if b runner (ec, w)), snd (run_if b runner (ec, w)))"
  by simp

lemma run_if_iwyu:
  "fst (run_if b run_include_what_you_use (ec, w)) = ec"
  "spawned (snd (run_if b run_include_what_you_use (ec, w))) = spawned w"
  "b \<Longrightarrow> ''Running include-what-you-use...'' \<in> set (console (snd (run_if b run_include_what_you_use (ec, w))))"
  by (cases b; simp add: run_if_simps run_include_what_you_use_fields)+

text \<open>
  C10. Whenever the compiled-command database exists, the clang-tidy runner returns 0,
  whatever clang-tidy printed and however many files it reported (also when there is no
  source file): the analyzer's exit code is then what the cppcheck runner contributed,
  and nothing of clang-tidy's findings.
\<close>

theorem clang_tidy_findings_do_not_reach_exit_code:
  "(os_path_exists (fs w) (compile_commands_path bd) \<longrightarrow> fst (run_clang_tidy T bd w) = 0) \<and>
   (\<forall>ta w1 rc0 w2.
      probe_tools T (tool args) (print rule60 (print ''Caelis Static Analysis'' w)) = (Inr ta, w1) \<and>
      run_if (tool args \<in> set [Cppcheck, AllTools] \<and> dict_get ta ''cppcheck'')
        (run_cppcheck T source_dirs) (0, w1) = (rc0, w2) \<and>
      os_path_exists (fs w2) (compile_commands_path (build_dir args)) \<longrightarrow>
      fst (analyze_main T args w) = Inr rc0)"
proof (intro conjI allI impI)
  assume "os_path_exists (fs w) (compile_commands_path bd)"
  then show "fst (run_clang_tidy T bd w) = 0"
    by (rule run_clang_tidy_present)
next
  fix ta w1 rc0 w2
  assume a: "probe_tools T (tool args) (print rule60 (print ''Caelis Static Analysis'' w)) = (Inr ta, w1) \<and>
      run_if (tool args \<in> set [Cppcheck, AllTools] \<and> dict_get ta ''cppcheck'')
        (run_cppcheck T source_dirs) (0, w1) = (rc0, w2) \<and>
      os_path_exists (fs w2) (compile_commands_path (build_dir args))"
  then have z: "fst (run_clang_tidy T (build_dir args) w2) = 0"
    by (simp add: run_clang_tidy_present)
  have "fst (run_tools T args ta w1) = rc0"
    unfolding run_tools_after_cppcheck[OF conjunct1[OF conjunct2[OF a]]]
    by (subst run_if_pair) (simp add: run_if_fields run_include_what_you_use_fields z)
  with a show "fst (analyze_main T args w) = Inr rc0"
    by (cases rule: analyze_main_cases[of T args w]) simp_all
qed

lemma warning_text:
  "contains ''warning:'' ''a.cpp:1:1: warning: unused variable''"
  by (auto simp: contains_def list_ex_iff intro!: bexI[of _ 11])

lemma warning_runner:
  "os_path_exists (fs built_world) (compile_commands_path ''build'')"
  "last (console (snd (run_clang_tidy tools_warning ''build'' built_world))) =
     CHR 0x0A # ''clang-tidy found issues in 1 files.''"
  "spawned (snd (run_clang_tidy tools_warning ''build'' built_world)) =
     [clang_tidy_cmd ''./a.cpp'' ''build'']"
  using warning_text
  by (simp_all add: analyzer_defs tools_warning_def)

lemma warning_probe:
  "\<exists>ta w1 w2. probe_tools tools_warning ClangTidy (print rule60 (print ''Caelis Static Analysis'' built_world)) =
      (Inr ta, w1) \<and>
     run_if (ClangTidy \<in> set [Cppcheck, AllTools] \<and> dict_get ta ''cppcheck'')
        (run_cppcheck tools_warning source_dirs) (0, w1) = (0, w2) \<and>
     os_path_exists (fs w2) (compile_commands_path ''build'')"
  by (simp add: analyzer_defs tools_warning_def)

theorem clang_tidy_findings_do_not_reach_exit_code_witness:
  "os_path_exists (fs built_world) (compile_commands_path ''build'') \<and>
   fst (run_clang_tidy tools_warning ''build'' built_world) = 0 \<and>
   last (console (snd (run_clang_tidy tools_warning ''build'' built_world))) =
     CHR 0x0A # ''clang-tidy found issues in 1 files.'' \<and>
   fst (analyze_main tools_warning \<lparr>tool = ClangTidy, build_dir = ''build''\<rparr> built_world) = Inr 0"
proof -
  note t = clang_tidy_findings_do_not_reach_exit_code[of built_world "''build''" tools_warning
      "\<lparr>tool = ClangTidy, build_dir = ''build''\<rparr>"]
  from t warning_runner(1) have 1: "fst (run_clang_tidy tools_warning ''build'' built_world) = 0"
    by blast
  from warning_probe obtain ta w1 w2 where
    "probe_tools tools_warning ClangTidy (print rule60 (print ''Caelis Static Analysis'' built_world)) =
      (Inr ta, w1)"
    "run_if (ClangTidy \<in> set [Cppcheck, AllTools] \<and> dict_get ta ''cppcheck'')
        (run_cppcheck tools_warning source_dirs) (0, w1) = (0, w2)"
    "os_path_exists (fs w2) (compile_commands_path ''build'')"
    by blast
  with conjunct2[OF t]
  have 2: "fst (analyze_main tools_warning \<lparr>tool = ClangTidy, build_dir = ''build''\<rparr> built_world) = Inr 0"
    by simp
  from 1 2 warning_runner(1,2) show ?thesis by simp
qed

text \<open>
  C3. If \<^verbatim>\<open>compile_commands.json\<close> does not exist under the build directory, the
  clang-tidy runner prints the missing-file error and returns 1 without spawning any
  process. In a run whose probes returned and found clang-tidy, \<^verbatim>\<open>main\<close> then returns
  normally with a non-zero exit code, the OR of the cppcheck runner's contribution and 1;
  no process is spawned after the cppcheck runner, and with \<^verbatim>\<open>--tool all\<close> the
  include-what-you-use runner still runs.
\<close>

theorem missing_compile_commands_stops_clang_tidy_only:
  "(\<not> os_path_exists (fs w) (compile_commands_path bd) \<longrightarrow>
      fst (run_clang_tidy T bd w) = 1 \<and>
      spawned (snd (run_clang_tidy T bd w)) = spawned w \<and>
      fs (snd (run_clang_tidy T bd w)) = fs w \<and>
      console (snd (run_clang_tidy T bd w)) =
        console w @ [CHR 0x0A # rule60, ''Running clang-tidy...'', rule60,
                     ''ERROR: '' @ compile_commands_path bd @ '' not found!'',
                     ''Please build the project with CMAKE_EXPORT_COMPILE_COMMANDS=ON'']) \<and>
   (\<forall>ta w1 rc0 w2.
      probe_tools T (tool args) (print rule60 (print ''Caelis Static Analysis'' w)) = (Inr ta, w1) \<and>
      tool args \<in> set [ClangTidy, AllTools] \<and> dict_get ta ''clang-tidy'' \<and>
      run_if (tool args \<in> set [Cppcheck, AllTools] \<and> dict_get ta ''cppcheck'')
        (run_cppcheck T source_dirs) (0, w1) = (rc0, w2) \<and>
      \<not> os_path_exists (fs w2) (compile_commands_path (build_dir args)) \<longrightarrow>
      fst (analyze_main T args w) = Inr (rc0 OR 1) \<and> rc0 OR 1 \<noteq> 0 \<and>
      spawned (snd (analyze_main T args w)) = spawned w2 \<and>
      (tool args = AllTools \<longrightarrow>
         ''Running include-what-you-use...'' \<in> set (console (snd (analyze_main T args w)))))"
proof (intro conjI allI impI)
  assume m: "\<not> os_path_exists (fs w) (compile_commands_path bd)"
  show "fst (run_clang_tidy T bd w) = 1" "spawned (snd (run_clang_tidy T bd w)) = spawned w"
    "fs (snd (run_clang_tidy T bd w)) = fs w"
    "console (snd (run_clang_tidy T bd w)) =
        console w @ [CHR 0x0A # rule60, ''Running clang-tidy...'', rule60,
                     ''ERROR: '' @ compile_commands_path bd @ '' not found!'',
                     ''Please build the project with CMAKE_EXPORT_COMPILE_COMMANDS=ON'']"
    by (simp_all add: run_clang_tidy_missing[OF m])
next
  fix ta w1 rc0 w2
  assume a: "probe_tools T (tool args) (print rule60 (print ''Caelis Static Analysis'' w)) = (Inr ta, w1) \<and>
      tool args \<in> set [ClangTidy, AllTools] \<and> dict_get ta ''clang-tidy'' \<and>
      run_if (tool args \<in> set [Cppcheck, AllTools] \<and> dict_get ta ''cppcheck'')
        (run_cppcheck T source_dirs) (0, w1) = (rc0, w2) \<and>
      \<not> os_path_exists (fs w2) (compile_commands_path (build_dir args))"
  then have m: "\<not> os_path_exists (fs w2) (compile_commands_path (build_dir args))"
    and c: "run_if (tool args \<in> set [Cppcheck, AllTools] \<and> dict_get ta ''cppcheck'')
        (run_cppcheck T source_dirs) (0, w1) = (rc0, w2)"
    and s: "tool args \<in> set [ClangTidy, AllTools] \<and> dict_get ta ''clang-tidy''"
    by simp_all
  let ?w3 = "snd (run_clang_tidy T (build_dir args) w2)"
  have t: "run_if (tool args \<in> set [ClangTidy, AllTools] \<and> dict_get ta ''clang-tidy'')
         (run_clang_tidy T (build_dir args)) (rc0, w2) = (rc0 OR 1, ?w3)"
    using s by (subst run_if_pair) (simp add: run_if_fields run_clang_tidy_missing[OF m])
  have w3: "spawned ?w3 = spawned w2"
    by (simp add: run_clang_tidy_missing[OF m])
  have r: "run_tools T args ta w1 =
      run_if (tool args \<in> set [Iwyu, AllTools]) run_include_what_you_use (rc0 OR 1, ?w3)"
    unfolding run_tools_after_cppcheck[OF c] t ..
  have main: "analyze_main T args w =
         (Inr (fst (run_tools T args ta w1)),
          banner ''Static analysis completed!'' (snd (run_tools T args ta w1)))"
    using a by (cases rule: analyze_main_cases[of T args w]) simp_all
  show "fst (analyze_main T args w) = Inr (rc0 OR 1)"
    by (simp add: main r run_if_iwyu)
  show "rc0 OR 1 \<noteq> 0"
    by (simp add: or_eq_0_iff)
  show "spawned (snd (analyze_main T args w)) = spawned w2"
    by (simp add: main r run_if_iwyu w3)
  show "''Running include-what-you-use...'' \<in> set (console (snd (analyze_main T args w)))"
    if "tool args = AllTools"
    using that run_if_iwyu(3)[of True "rc0 OR 1" ?w3] by (simp add: main r)
qed

lemma clean_missing_probe:
  "\<exists>ta w1 rc0 w2.
     probe_tools tools_clean AllTools (print rule60 (print ''Caelis Static Analysis'' scenario_world)) =
       (Inr ta, w1) \<and>
     dict_get ta ''clang-tidy'' \<and>
     run_if (AllTools \<in> set [Cppcheck, AllTools] \<and> dict_get ta ''cppcheck'')
        (run_cppcheck tools_clean source_dirs) (0, w1) = (rc0, w2) \<and>
     \<not> os_path_exists (fs w2) (compile_commands_path ''out'') \<and> rc0 = 0 \<and>
     spawned w2 = [[''cppcheck'', ''--version''], [''clang-tidy'', ''--version''],
                   [''include-what-you-use'', ''--version''],
                   cppcheck_flags @ [''SilicaEngine/src'', ''Fractura/src'']]"
  by (simp add: analyzer_defs tools_clean_def)

theorem missing_compile_commands_stops_clang_tidy_only_witness:
  "\<not> os_path_exists (fs scenario_world) (compile_commands_path ''out'') \<and>
   fst (run_clang_tidy tools_clean ''out'' scenario_world) = 1 \<and>
   spawned (snd (run_clang_tidy tools_clean ''out'' scenario_world)) = [] \<and>
   fst (analyze_main tools_clean \<lparr>tool = AllTools, build_dir = ''out''\<rparr> scenario_world) = Inr 1 \<and>
   spawned (snd (analyze_main tools_clean \<lparr>tool = AllTools, build_dir = ''out''\<rparr> scenario_world)) =
     [[''cppcheck'', ''--version''], [''clang-tidy'', ''--version''],
      [''include-what-you-use'', ''--version''],
      cppcheck_flags @ [''SilicaEngine/src'', ''Fractura/src'']] \<and>
   ''Running include-what-you-use...'' \<in>
     set (console (snd (analyze_main tools_clean \<lparr>tool = AllTools, build_dir = ''out''\<rparr> scenario_world)))"
proof -
  note t = missing_compile_commands_stops_clang_tidy_only[of scenario_world "''out''" tools_clean
      "\<lparr>tool = AllTools, build_dir = ''out''\<rparr>"]
  have m: "\<not> os_path_exists (fs scenario_world) (compile_commands_path ''out'')"
    by (simp add: scenario_world_def scenario_fs_def compile_commands_path_def os_path_join_def)
  have e: "spawned scenario_world = []"
    by (simp add: scenario_world_def)
  from conjunct1[OF t] m e have 1: "fst (run_clang_tidy tools_clean ''out'' scenario_world) = 1"
    "spawned (snd (run_clang_tidy tools_clean ''out'' scenario_world)) = []"
    by simp_all
  from clean_missing_probe obtain ta w1 w2 where h:
    "probe_tools tools_clean AllTools (print rule60 (print ''Caelis Static Analysis'' scenario_world)) =
       (Inr ta, w1)"
    "dict_get ta ''clang-tidy''"
    "run_if (AllTools \<in> set [Cppcheck, AllTools] \<and> dict_get ta ''cppcheck'')
        (run_cppcheck tools_clean source_dirs) (0, w1) = (0, w2)"
    "\<not> os_path_exists (fs w2) (compile_commands_path ''out'')"
    "spawned w2 = [[''cppcheck'', ''--version''], [''clang-tidy'', ''--version''],
                   [''include-what-you-use'', ''--version''],
                   cppcheck_flags @ [''SilicaEngine/src'', ''Fractura/src'']]"
    by blast
  from conjunct2[OF t, rule_format, of ta w1 0 w2] h
  have 2: "fst (analyze_main tools_clean \<lparr>tool = AllTools, build_dir = ''out''\<rparr> scenario_world) = Inr 1"
    "spawned (snd (analyze_main tools_clean \<lparr>tool = AllTools, build_dir = ''out''\<rparr> scenario_world)) =
       spawned w2"
    "''Running include-what-you-use...'' \<in>
     set (console (snd (analyze_main tools_clean \<lparr>tool = AllTools, build_dir = ''out''\<rparr> scenario_world)))"
    by simp_all
  from m 1 2 h(5) show ?thesis by simp
qed

text \<open>
  The cppcheck and clang-tidy runners are gated by their probes: with both reported
  absent, what \<^verbatim>\<open>main\<close> runs depends on the selection alone, and it is the
  include-what-you-use runner, whose probe's result is never consulted.
\<close>

lemma absent_tools_are_skipped:
  assumes "\<not> dict_get ta ''cppcheck''" "\<not> dict_get ta ''clang-tidy''"
  shows "run_tools T args ta w =
    run_if (tool args \<in> set [Iwyu, AllTools]) run_include_what_you_use (0, w)"
  using assms by (simp add: run_tools_def run_if_simps)

text \<open>
  C4, at the input where the code departs from it: \<^verbatim>\<open>--tool iwyu\<close> on a machine without
  include-what-you-use. The probe reports the tool absent and records False for it, and
  the include-what-you-use runner is entered all the same: its banner and text are
  printed, and the run ends with exit code 0.
\<close>

theorem iwyu_runner_entered_though_absent:
  "fst (check_tool tools_absent ''include-what-you-use''
          ''Complex setup - see https://include-what-you-use.org/''
          (print rule60 (print ''Caelis Static Analysis'' scenario_world))) = Inr False \<and>
   fst (probe_tools tools_absent Iwyu (print rule60 (print ''Caelis Static Analysis'' scenario_world))) =
     Inr [''iwyu'' \<mapsto> False] \<and>
   fst (analyze_main tools_absent \<lparr>tool = Iwyu, build_dir = ''build''\<rparr> scenario_world) = Inr 0 \<and>
   console (snd (analyze_main tools_absent \<lparr>tool = Iwyu, build_dir = ''build''\<rparr> scenario_world)) =
     [''Caelis Static Analysis'', rule60,
      cross_mark @ '' include-what-you-use not found'',
      ''  Install: Complex setup - see https://include-what-you-use.org/'',
      CHR 0x0A # rule60, ''Running include-what-you-use...'', rule60,
      ''include-what-you-use requires compilation with special flags.'',
      ''This is complex to set up automatically. Please refer to:'',
      ''https://include-what-you-use.org/'',
      CHR 0x0A # rule60, ''Static analysis completed!'', rule60]"
  by (simp add: analyzer_defs tools_absent_def)

end
